theory Spec2Isabelle
  imports Complex_Main "HOL-Library.Log_Nat"
begin

section \<open>JavaScript values\<close>

text \<open>
  The forms are TypeScript modules; their records are plain JavaScript values. A Number is
  an IEEE-754 binary64 value: NaN, an infinity, or a finite value that is kept here as the
  rational it denotes (the two zeros are identified, as \<^verbatim>\<open>===\<close> identifies them).
  A string is a list of code units; the model covers code units below 256.
  A Date holds a time value, or none when it is an invalid date.
\<close>

datatype jsnum = NaN | PInf | NInf | Fin rat

datatype jsval =
    Undefined
  | Null
  | JBool bool
  | JNum jsnum
  | JStr string
  | JDate "int option"
  | JArr "jsval list"
  | JObj "(string \<times> jsval) list"

fun isFinite :: "jsnum \<Rightarrow> bool" where
  "isFinite (Fin x) = True"
| "isFinite _ = False"

fun isInteger :: "jsnum \<Rightarrow> bool" where
  "isInteger (Fin x) = (of_int \<lfloor>x\<rfloor> = x)"
| "isInteger _ = False"

text \<open>\<^verbatim>\<open>a < c\<close> and \<^verbatim>\<open>a <= c\<close> for a Number \<open>a\<close> and a finite constant \<open>c\<close>.\<close>

fun num_lt :: "jsnum \<Rightarrow> rat \<Rightarrow> bool" where
  "num_lt (Fin x) c = (x < c)"
| "num_lt NInf c = True"
| "num_lt PInf c = False"
| "num_lt NaN c = False"

fun num_le :: "jsnum \<Rightarrow> rat \<Rightarrow> bool" where
  "num_le (Fin x) c = (x \<le> c)"
| "num_le NInf c = True"
| "num_le PInf c = False"
| "num_le NaN c = False"

subsection \<open>Objects\<close>

definition obj_get :: "(string \<times> jsval) list \<Rightarrow> string \<Rightarrow> jsval" where
  "obj_get kvs k = (case map_of kvs k of Some v \<Rightarrow> v | None \<Rightarrow> Undefined)"

text \<open>\<^verbatim>\<open>v.k\<close>: a missing property reads as \<^verbatim>\<open>undefined\<close>.\<close>

fun get_prop :: "jsval \<Rightarrow> string \<Rightarrow> jsval" where
  "get_prop (JObj kvs) k = obj_get kvs k"
| "get_prop _ k = Undefined"

subsection \<open>Strings\<close>

text \<open>
  \<^verbatim>\<open>String.prototype.trim\<close> removes white space and line terminators from both ends:
  TAB, LF, VT, FF, CR, SPACE and NBSP among the code units below 256.
\<close>

definition is_js_space :: "char \<Rightarrow> bool" where
  "is_js_space c = (of_char c \<in> {9, 10, 11, 12, 13, 32, 160 :: nat})"

definition trim :: "string \<Rightarrow> string" where
  "trim s = rev (dropWhile is_js_space (rev (dropWhile is_js_space s)))"

text \<open>\<^verbatim>\<open>v?.trim()\<close> on a value that the schema has typed as an optional string.\<close>

fun opt_trim :: "jsval \<Rightarrow> jsval" where
  "opt_trim (JStr s) = JStr (trim s)"
| "opt_trim _ = Undefined"

fun truthy :: "jsval \<Rightarrow> bool" where
  "truthy Undefined = False"
| "truthy Null = False"
| "truthy (JBool b) = b"
| "truthy (JNum n) = (n \<noteq> NaN \<and> n \<noteq> Fin 0)"
| "truthy (JStr s) = (s \<noteq> [])"
| "truthy _ = True"

section \<open>The validation library (zod 3)\<close>

text \<open>
  Every schema of the repository is built from zod combinators. A schema parses a value at
  a path and returns a parse status with the parsed value, and the issues it raised:
  \<open>OK\<close> (status valid), \<open>DIRTY\<close> (a check failed, parsing went on) or \<open>INVALID\<close> (status
  aborted: the value has the wrong type, nothing is returned). An issue carries its path, its
  code and the message given in the source (\<open>None\<close> where zod's default error map words it).
\<close>

datatype seg = Key string | Idx nat

datatype zcode =
  invalid_type | invalid_literal | custom | invalid_union | invalid_enum_value
  | too_small | too_big | invalid_date

datatype issue = Issue (ipath: "seg list") (icode: zcode) (imsg: "string option")

datatype parse_return = OK jsval | DIRTY jsval | INVALID

type_synonym zres = "parse_return \<times> issue list"

type_synonym zschema = "seg list \<Rightarrow> jsval \<Rightarrow> zres"

record zparams =
  required_error :: "string option"
  invalid_type_error :: "string option"

definition no_params :: zparams where
  "no_params = \<lparr>required_error = None, invalid_type_error = None\<rparr>"

definition required :: "string \<Rightarrow> zparams" where
  "required m = \<lparr>required_error = Some m, invalid_type_error = None\<rparr>"

definition invalid_type_msg :: "string \<Rightarrow> zparams" where
  "invalid_type_msg m = \<lparr>required_error = None, invalid_type_error = Some m\<rparr>"

text \<open>The message of a type error: \<open>required_error\<close> for \<^verbatim>\<open>undefined\<close>, else \<open>invalid_type_error\<close>.\<close>

definition type_msg :: "zparams \<Rightarrow> jsval \<Rightarrow> string option" where
  "type_msg ps v = (if v = Undefined then required_error ps else invalid_type_error ps)"

fun is_invalid :: "parse_return \<Rightarrow> bool" where
  "is_invalid INVALID = True"
| "is_invalid _ = False"

fun is_dirty :: "parse_return \<Rightarrow> bool" where
  "is_dirty (DIRTY v) = True"
| "is_dirty _ = False"

fun is_ok :: "parse_return \<Rightarrow> bool" where
  "is_ok (OK v) = True"
| "is_ok _ = False"

fun ret_value :: "parse_return \<Rightarrow> jsval" where
  "ret_value (OK v) = v"
| "ret_value (DIRTY v) = v"
| "ret_value INVALID = Undefined"

definition mk_return :: "bool \<Rightarrow> jsval \<Rightarrow> parse_return" where
  "mk_return dirty v = (if dirty then DIRTY v else OK v)"

subsection \<open>Strings and numbers\<close>

datatype str_check = StrMin nat "string option" | StrMax nat "string option" | StrTrim

fun str_checks :: "str_check list \<Rightarrow> seg list \<Rightarrow> string \<Rightarrow> bool \<Rightarrow> issue list \<Rightarrow> zres" where
  "str_checks [] p s d iss = (mk_return d (JStr s), iss)"
| "str_checks (StrMin n m # cs) p s d iss =
     (if length s < n then str_checks cs p s True (iss @ [Issue p too_small m])
      else str_checks cs p s d iss)"
| "str_checks (StrMax n m # cs) p s d iss =
     (if length s > n then str_checks cs p s True (iss @ [Issue p too_big m])
      else str_checks cs p s d iss)"
| "str_checks (StrTrim # cs) p s d iss = str_checks cs p (trim s) d iss"

definition z_string :: "zparams \<Rightarrow> str_check list \<Rightarrow> zschema" where
  "z_string ps cs p v =
     (case v of
        JStr s \<Rightarrow> str_checks cs p s False []
      | _ \<Rightarrow> (INVALID, [Issue p invalid_type (type_msg ps v)]))"

text \<open>
  \<open>NumMin c True\<close> is \<^verbatim>\<open>.min(c)\<close> (and \<^verbatim>\<open>.nonnegative()\<close> for \<open>c = 0\<close>);
  \<open>NumMin c False\<close> is the exclusive bound of \<^verbatim>\<open>.positive()\<close>.
\<close>

datatype num_check = NumInt "string option" | NumMin rat bool "string option"

fun num_checks :: "num_check list \<Rightarrow> seg list \<Rightarrow> jsnum \<Rightarrow> bool \<Rightarrow> issue list \<Rightarrow> zres" where
  "num_checks [] p x d iss = (mk_return d (JNum x), iss)"
| "num_checks (NumInt m # cs) p x d iss =
     (if \<not> isInteger x then num_checks cs p x True (iss @ [Issue p invalid_type m])
      else num_checks cs p x d iss)"
| "num_checks (NumMin c incl m # cs) p x d iss =
     (if (if incl then num_lt x c else num_le x c)
      then num_checks cs p x True (iss @ [Issue p too_small m])
      else num_checks cs p x d iss)"

text \<open>\<^verbatim>\<open>z.number()\<close>: NaN is not of type number for zod; the infinities are.\<close>

definition z_number :: "zparams \<Rightarrow> num_check list \<Rightarrow> zschema" where
  "z_number ps cs p v =
     (case v of
        JNum x \<Rightarrow>
          (if x = NaN then (INVALID, [Issue p invalid_type (type_msg ps v)])
           else num_checks cs p x False [])
      | _ \<Rightarrow> (INVALID, [Issue p invalid_type (type_msg ps v)]))"

subsection \<open>Enumerations, literals, unions\<close>

definition z_enum :: "string list \<Rightarrow> zparams \<Rightarrow> zschema" where
  "z_enum vals ps p v =
     (case v of
        JStr s \<Rightarrow>
          (if s \<in> set vals then (OK v, [])
           else (INVALID, [Issue p invalid_enum_value None]))
      | _ \<Rightarrow> (INVALID, [Issue p invalid_type (type_msg ps v)]))"

definition z_literal :: "jsval \<Rightarrow> zschema" where
  "z_literal lit p v =
     (if v = lit then (OK v, []) else (INVALID, [Issue p invalid_literal None]))"

text \<open>
  \<^verbatim>\<open>z.union\<close> returns the first option that is valid; failing that, the first dirty
  option with its issues; failing that, it aborts with one \<open>invalid_union\<close> issue.
\<close>

definition z_union :: "zschema list \<Rightarrow> zschema" where
  "z_union opts p v =
     (let rs = map (\<lambda>s. s p v) opts in
      case find (\<lambda>r. is_ok (fst r)) rs of
        Some r \<Rightarrow> r
      | None \<Rightarrow>
          (case find (\<lambda>r. is_dirty (fst r)) rs of
             Some r \<Rightarrow> r
           | None \<Rightarrow> (INVALID, [Issue p invalid_union None])))"

definition z_optional :: "zschema \<Rightarrow> zschema" where
  "z_optional s p v = (if v = Undefined then (OK Undefined, []) else s p v)"

definition z_default :: "zschema \<Rightarrow> jsval \<Rightarrow> zschema" where
  "z_default s dflt p v = s p (if v = Undefined then dflt else v)"

definition z_date :: "zparams \<Rightarrow> zschema" where
  "z_date ps p v =
     (case v of
        JDate None \<Rightarrow> (INVALID, [Issue p invalid_date None])
      | JDate (Some t) \<Rightarrow> (OK v, [])
      | _ \<Rightarrow> (INVALID, [Issue p invalid_type (type_msg ps v)]))"

subsection \<open>Arrays and objects\<close>

text \<open>
  An array parses every element at its index; an object parses every key of its shape.
  All elements are parsed, so all their issues are collected; the result is aborted when
  one element aborted and dirty when one is dirty. Unknown keys of an object are stripped.
\<close>

definition merge_status :: "bool \<Rightarrow> parse_return list \<Rightarrow> jsval \<Rightarrow> parse_return" where
  "merge_status d rs out =
     (if list_ex is_invalid rs then INVALID
      else mk_return (d \<or> list_ex is_dirty rs) out)"

definition z_array :: "zschema \<Rightarrow> (nat \<times> string option) option \<Rightarrow> zschema" where
  "z_array elem minLength p v =
     (case v of
        JArr xs \<Rightarrow>
          (let short = (case minLength of None \<Rightarrow> False | Some (n, m) \<Rightarrow> length xs < n);
               iss0 = (case minLength of
                         None \<Rightarrow> []
                       | Some (n, m) \<Rightarrow> if length xs < n then [Issue p too_small m] else []);
               rs = map (\<lambda>(i, x). elem (p @ [Idx i]) x) (enumerate 0 xs)
           in (merge_status short (map fst rs) (JArr (map (ret_value \<circ> fst) rs)),
               iss0 @ concat (map snd rs)))
      | _ \<Rightarrow> (INVALID, [Issue p invalid_type None]))"

definition object_out :: "(string \<times> jsval) list \<Rightarrow> (string \<times> zres) list \<Rightarrow> jsval" where
  "object_out kvs rs =
     JObj (map (\<lambda>(k, r). (k, ret_value (fst r)))
            (filter (\<lambda>(k, r). ret_value (fst r) \<noteq> Undefined \<or> k \<in> set (map fst kvs)) rs))"

definition z_object :: "(string \<times> zschema) list \<Rightarrow> zschema" where
  "z_object shape p v =
     (case v of
        JObj kvs \<Rightarrow>
          (let rs = map (\<lambda>(k, s). (k, s (p @ [Key k]) (obj_get kvs k))) shape
           in (merge_status False (map (fst \<circ> snd) rs) (object_out kvs rs),
               concat (map (snd \<circ> snd) rs)))
      | _ \<Rightarrow> (INVALID, [Issue p invalid_type None]))"

subsection \<open>Refinements\<close>

text \<open>
  \<^verbatim>\<open>.superRefine(f)\<close> and \<^verbatim>\<open>.refine(check, {path, message})\<close> wrap a schema. The
  inner schema is parsed first; when it aborted, the refinement does not run (zod returns
  \<^verbatim>\<open>INVALID\<close> as soon as the status of the inner result is \<^verbatim>\<open>"aborted"\<close>). Otherwise the
  refinement sees the parsed value, and each issue it adds (never fatal in this repository)
  makes the result dirty. The path of an added issue is relative to the refined value.
\<close>

definition z_superRefine :: "zschema \<Rightarrow> (jsval \<Rightarrow> (seg list \<times> string) list) \<Rightarrow> zschema" where
  "z_superRefine s f p v =
     (case s p v of
        (INVALID, iss) \<Rightarrow> (INVALID, iss)
      | (r, iss) \<Rightarrow>
          (let added = map (\<lambda>(rp, m). Issue (p @ rp) custom (Some m)) (f (ret_value r))
           in (mk_return (is_dirty r \<or> added \<noteq> []) (ret_value r), iss @ added)))"

definition z_refine :: "zschema \<Rightarrow> (jsval \<Rightarrow> bool) \<Rightarrow> seg list \<Rightarrow> string \<Rightarrow> zschema" where
  "z_refine s check rp m = z_superRefine s (\<lambda>v. if check v then [] else [(rp, m)])"

subsection \<open>safeParse\<close>

datatype safe_result = Success jsval | Failure "issue list"

definition safeParse :: "zschema \<Rightarrow> jsval \<Rightarrow> safe_result" where
  "safeParse s v = (case s [] v of (OK u, iss) \<Rightarrow> Success u | (_, iss) \<Rightarrow> Failure iss)"

fun success :: "safe_result \<Rightarrow> bool" where
  "success (Success u) = True"
| "success (Failure iss) = False"

fun issues :: "safe_result \<Rightarrow> issue list" where
  "issues (Success u) = []"
| "issues (Failure iss) = iss"

section \<open>Stock receipt (Stock\_Receipt.tsx)\<close>

definition stockReceiveSchema :: zschema where
  "stockReceiveSchema = z_object
     [(''quantityReceived'',
         z_number (invalid_type_msg ''Enter a quantity'')
           [NumInt (Some ''Must be a whole number''),
            NumMin 0 False (Some ''Must be greater than 0'')]),
      (''unitPrice'',
         z_number (invalid_type_msg ''Enter a unit price'')
           [NumMin 0 True (Some ''Cannot be negative'')]),
      (''totalCost'',
         z_number (invalid_type_msg ''Total cost required'') [NumMin 0 True None]),
      (''location'', z_string no_params [StrMin 1 (Some ''Select a location'')])]"

subsection \<open>calcTotalCost\<close>

text \<open>
  \<^verbatim>\<open>q * p\<close> on Numbers is the exact product rounded to the nearest binary64 value, ties to
  the even significand. \<open>round64\<close> is that rounding: a value of magnitude at least
  \<open>2^1024 - 2^970\<close> (half a unit beyond the largest double) rounds to an infinity, any other
  to the nearest multiple of the unit in the last place, \<open>2^(e - 52)\<close> with
  \<open>e = max \<lfloor>log\<^sub>2 |x|\<rfloor> (-1022)\<close>.
\<close>

definition pow2 :: "int \<Rightarrow> rat" where
  "pow2 k = (if 0 \<le> k then 2 ^ nat k else 1 / 2 ^ nat (- k))"

definition floor_log2 :: "rat \<Rightarrow> int" where
  "floor_log2 x =
     (let (a, b) = quotient_of x; d = bitlen a - bitlen b
      in if pow2 d \<le> x then d else d - 1)"

definition round_ties_even :: "rat \<Rightarrow> int" where
  "round_ties_even m =
     (let f = \<lfloor>m\<rfloor>; r = m - of_int f
      in if r < 1 / 2 then f else if 1 / 2 < r then f + 1 else if even f then f else f + 1)"

definition round64 :: "rat \<Rightarrow> jsnum" where
  "round64 x =
     (if 2 ^ 1024 - 2 ^ 970 \<le> \<bar>x\<bar> then (if 0 < x then PInf else NInf)
      else if x = 0 then Fin 0
      else let k = max (floor_log2 \<bar>x\<bar>) (- 1022) - 52
           in Fin (of_int (round_ties_even (x / pow2 k)) * pow2 k))"

fun is_negative :: "jsnum \<Rightarrow> bool" where
  "is_negative (Fin x) = (x < 0)"
| "is_negative NInf = True"
| "is_negative _ = False"

definition js_mul :: "jsnum \<Rightarrow> jsnum \<Rightarrow> jsnum" where
  "js_mul a b =
     (case (a, b) of
        (Fin x, Fin y) \<Rightarrow> round64 (x * y)
      | _ \<Rightarrow>
          if a = NaN \<or> b = NaN \<or> a = Fin 0 \<or> b = Fin 0 then NaN
          else if is_negative a = is_negative b then PInf else NInf)"

text \<open>
  \<^verbatim>\<open>x.toFixed(2)\<close> for \<open>|x| < 10^21\<close> writes the decimal \<open>n / 100\<close> where \<open>n\<close> is the integer
  nearest to \<open>|x| * 100\<close>, the larger one of two, with the sign of \<open>x\<close>; \<open>toFixed2\<close> is the
  number that string denotes. \<^verbatim>\<open>Number(s)\<close> reads it back as the nearest double. From
  \<open>10^21\<close> on, and for the infinities and NaN, \<^verbatim>\<open>toFixed\<close> is \<^verbatim>\<open>String(x)\<close>, which
  \<^verbatim>\<open>Number\<close> reads back as \<open>x\<close> itself.
\<close>

definition toFixed2 :: "rat \<Rightarrow> rat" where
  "toFixed2 x =
     (let n = \<lfloor>\<bar>x\<bar> * 100 + 1 / 2\<rfloor>
      in (if x < 0 then - 1 else 1) * of_int n / 100)"

fun Number_toFixed2 :: "jsnum \<Rightarrow> jsnum" where
  "Number_toFixed2 (Fin x) = (if 10 ^ 21 \<le> \<bar>x\<bar> then Fin x else round64 (toFixed2 x))"
| "Number_toFixed2 y = y"

definition calcTotalCost :: "jsnum \<Rightarrow> jsnum \<Rightarrow> jsnum" where
  "calcTotalCost qty unitPrice =
     (let q = (if isFinite qty then qty else Fin 0);
          p = (if isFinite unitPrice then unitPrice else Fin 0)
      in Number_toFixed2 (js_mul q p))"

text \<open>The value the function computes with: a non-finite argument counts as zero.\<close>

fun finite_or_zero :: "jsnum \<Rightarrow> rat" where
  "finite_or_zero (Fin x) = x"
| "finite_or_zero _ = 0"

section \<open>Production order (Production\_Order.tsx and src/unnamed/part\_000)\<close>

definition ASSIGNED_TO :: "string list" where
  "ASSIGNED_TO = [''Workshop Team'', ''Support Team'', ''Other'']"

definition REQUESTED_BY :: "string list" where
  "REQUESTED_BY = [''Director'', ''Manager'', ''Other'']"

definition SIZES_COMMON :: "string list" where
  \<open>SIZES_COMMON = [''Adult'', ''60"'', ''48"'', ''38"'', ''30"'', ''24"'', ''Stillbirth'', ''Other'']\<close>

definition COLORS :: "string list" where
  "COLORS = [''White'', ''Brown'', ''Other'']"

definition FLAT_MATERIALS :: "string list" where
  "FLAT_MATERIALS = [''Superwood'', ''Zimtex/Superwood'']"

definition FLAT_TIERS :: "string list" where
  "FLAT_TIERS = [''Flat'', ''1 Tier'', ''2 Tier'', ''3 Tier'']"

definition FLAT_SIZES :: "string list" where
  \<open>FLAT_SIZES =
     [''Adult'', ''Jumbo'', ''60"'', ''48"'', ''38"'', ''30"'', ''24"'', ''Stillbirth'', ''Other'']\<close>

definition DOME_MATERIALS :: "string list" where
  "DOME_MATERIALS = [''Superwood'', ''Zimtex/Superwood'']"

definition DOME_SIZES :: "string list" where
  "DOME_SIZES = [''Adult'', ''Other'']"

definition DURATION_UNITS :: "string list" where
  "DURATION_UNITS = [''Hours'', ''Days'', ''Weeks'', ''Months'']"

definition enumOrEmpty :: "string list \<Rightarrow> zschema" where
  "enumOrEmpty vals = z_union [z_enum vals no_params, z_literal (JStr [])]"

definition baseQuantity :: zschema where
  "baseQuantity = z_number (invalid_type_msg ''Quantity must be a number'')
     [NumInt (Some ''Quantity must be an integer''), NumMin 1 True (Some ''Min quantity is 1'')]"

text \<open>The two refinement predicates every form repeats, for a field \<open>f\<close> of the refined object.\<close>

definition selected :: "string \<Rightarrow> jsval \<Rightarrow> bool" where
  "selected f v = (get_prop v f \<noteq> JStr [])"

definition other_specified :: "string \<Rightarrow> jsval \<Rightarrow> bool" where
  "other_specified f v =
     (get_prop v f \<noteq> JStr ''Other'' \<or> truthy (opt_trim (get_prop v (f @ ''Other''))))"

definition job_fields :: zschema where
  "job_fields = z_object
     [(''expectedStartDate'', z_string no_params [StrMin 1 (Some ''Date is required'')]),
      (''expectedStartTime'', z_string no_params [StrMin 1 (Some ''Time is required'')]),
      (''expectedDurationValue'',
         z_number (invalid_type_msg ''Duration must be a number'')
           [NumMin 1 True (Some ''Duration is required'')]),
      (''expectedDurationUnit'', enumOrEmpty DURATION_UNITS),
      (''assignedTo'', enumOrEmpty ASSIGNED_TO),
      (''assignedToOther'', z_optional (z_string no_params [])),
      (''requestedBy'', enumOrEmpty REQUESTED_BY),
      (''requestedByOther'', z_optional (z_string no_params []))]"

definition job_schema :: zschema where
  "job_schema =
     z_refine (z_refine (z_refine (z_refine (z_refine job_fields
       (selected ''expectedDurationUnit'') [Key ''expectedDurationUnit'']
         ''Please select a duration unit.'')
       (selected ''assignedTo'') [Key ''assignedTo''] ''Please select the assignee team.'')
       (selected ''requestedBy'') [Key ''requestedBy''] ''Please select who requested.'')
       (other_specified ''assignedTo'') [Key ''assignedToOther'']
         ''Please specify who it's assigned to.'')
       (other_specified ''requestedBy'') [Key ''requestedByOther'']
         ''Please specify who requested.''"

definition coffinFishes_fields :: zschema where
  "coffinFishes_fields = z_object
     [(''fishType'', z_string no_params [StrMin 1 (Some ''Fish type is required'')]),
      (''size'', enumOrEmpty SIZES_COMMON),
      (''sizeOther'', z_optional (z_string no_params [])),
      (''color'', enumOrEmpty COLORS),
      (''colorOther'', z_optional (z_string no_params [])),
      (''quantity'', baseQuantity)]"

definition coffinFishes_item :: zschema where
  "coffinFishes_item =
     z_refine (z_refine (z_refine (z_refine coffinFishes_fields
       (selected ''size'') [Key ''size''] ''Please select a size.'')
       (selected ''color'') [Key ''color''] ''Please select a color.'')
       (other_specified ''size'') [Key ''sizeOther''] ''Please specify the size.'')
       (other_specified ''color'') [Key ''colorOther''] ''Please specify the color.''"

text \<open>
  The flat and dome line items are the same in both files but for the schema of
  \<open>quantity\<close>: \<open>baseQuantity\<close> in Production\_Order.tsx, \<^verbatim>\<open>z.literal(1)\<close> in part\_000
  (whose \<open>fishCoffins\<close> items have the shape of the flat ones).
\<close>

definition flat_fields :: "zschema \<Rightarrow> zschema" where
  "flat_fields quantity = z_object
     [(''material'', enumOrEmpty FLAT_MATERIALS),
      (''tier'', enumOrEmpty FLAT_TIERS),
      (''size'', enumOrEmpty FLAT_SIZES),
      (''sizeOther'', z_optional (z_string no_params [])),
      (''color'', enumOrEmpty COLORS),
      (''colorOther'', z_optional (z_string no_params [])),
      (''quantity'', quantity)]"

definition flat_item :: "zschema \<Rightarrow> zschema" where
  "flat_item quantity =
     z_refine (z_refine (z_refine (z_refine (z_refine (z_refine (flat_fields quantity)
       (selected ''material'') [Key ''material''] ''Please select material.'')
       (selected ''tier'') [Key ''tier''] ''Please select tier.'')
       (selected ''size'') [Key ''size''] ''Please select size.'')
       (selected ''color'') [Key ''color''] ''Please select color.'')
       (other_specified ''size'') [Key ''sizeOther''] ''Please specify the size.'')
       (other_specified ''color'') [Key ''colorOther''] ''Please specify the color.''"

definition dome_fields :: "zschema \<Rightarrow> zschema" where
  "dome_fields quantity = z_object
     [(''material'', enumOrEmpty DOME_MATERIALS),
      (''size'', enumOrEmpty DOME_SIZES),
      (''sizeOther'', z_optional (z_string no_params [])),
      (''color'', enumOrEmpty COLORS),
      (''colorOther'', z_optional (z_string no_params [])),
      (''quantity'', quantity)]"

definition dome_item :: "zschema \<Rightarrow> zschema" where
  "dome_item quantity =
     z_refine (z_refine (z_refine (z_refine (z_refine (dome_fields quantity)
       (selected ''material'') [Key ''material''] ''Please select material.'')
       (selected ''size'') [Key ''size''] ''Please select size.'')
       (selected ''color'') [Key ''color''] ''Please select color.'')
       (other_specified ''size'') [Key ''sizeOther''] ''Please specify the size.'')
       (other_specified ''color'') [Key ''colorOther''] ''Please specify the color.''"

definition schema_Production_Order :: zschema where
  "schema_Production_Order = z_object
     [(''job'', job_schema),
      (''coffinFishes'',
         z_array coffinFishes_item (Some (1, Some ''Add at least one Coffin (Fish) item''))),
      (''flatCaskets'',
         z_array (flat_item baseQuantity) (Some (1, Some ''Add at least one Flat Casket''))),
      (''domeCaskets'',
         z_array (dome_item baseQuantity) (Some (1, Some ''Add at least one Dome Casket'')))]"

definition schema_part_000 :: zschema where
  "schema_part_000 = z_object
     [(''flatCaskets'', z_array (flat_item (z_literal (JNum (Fin 1)))) None),
      (''fishCoffins'', z_array (flat_item (z_literal (JNum (Fin 1)))) None),
      (''domeCaskets'', z_array (dome_item (z_literal (JNum (Fin 1)))) None)]"

text \<open>
  The messages of the \<open>selected\<close> refinements of Production\_Order.tsx, by the object they
  refine (the job or a line of one of the three arrays) and the field they guard.
\<close>

definition select_message :: "string \<Rightarrow> string \<Rightarrow> string" where
  "select_message obj f =
     (if obj = ''job'' then
        (if f = ''expectedDurationUnit'' then ''Please select a duration unit.''
         else if f = ''assignedTo'' then ''Please select the assignee team.''
         else ''Please select who requested.'')
      else if obj = ''coffinFishes'' then
        (if f = ''size'' then ''Please select a size.'' else ''Please select a color.'')
      else
        (if f = ''material'' then ''Please select material.''
         else if f = ''tier'' then ''Please select tier.''
         else if f = ''size'' then ''Please select size.''
         else ''Please select color.''))"

section \<open>Downtime (Downtime.tsx)\<close>

text \<open>
  \<^verbatim>\<open>new Date(s)\<close> and \<^verbatim>\<open>toISOString\<close> belong to the JavaScript runtime; they are
  parameters here: \<open>parse s\<close> is the time value of the parsed string, \<open>None\<close> for an invalid
  date, and \<open>toISO t\<close> is the ISO-8601 text of a time value.
\<close>

definition departments :: "string list" where
  "departments = [''Cutting'', ''Assembly'', ''Sanding'', ''Spraying'', ''Upholstery/Lining'', ''Other'']"

definition reasons :: "string list" where
  "reasons = [''Raw material out of stock'', ''No electricity'', ''No workforce'',
     ''Machine breakdown'', ''Maintenance'', ''Management directive'', ''Other'']"

text \<open>The template literal \<^verbatim>\<open>`${d}T${t}`\<close> of two values the schema has typed as strings.\<close>

fun date_time_string :: "jsval \<Rightarrow> jsval \<Rightarrow> string" where
  "date_time_string (JStr d) (JStr t) = d @ ''T'' @ t"
| "date_time_string _ _ = []"

definition downtime_refinement ::
  "(string \<Rightarrow> int option) \<Rightarrow> jsval \<Rightarrow> (seg list \<times> string) list" where
  "downtime_refinement parse val =
     (if get_prop val ''department'' = JStr ''Other''
         \<and> \<not> truthy (opt_trim (get_prop val ''departmentOther''))
      then [([Key ''departmentOther''], ''Please specify the department.'')] else [])
     @ (if get_prop val ''reason'' = JStr ''Other''
           \<and> \<not> truthy (opt_trim (get_prop val ''reasonOther''))
        then [([Key ''reasonOther''], ''Please specify the reason.'')] else [])
     @ (if parse (date_time_string (get_prop val ''startDate'') (get_prop val ''startTime'')) = None
        then [([Key ''startTime''], ''Invalid date/time.'')] else [])"

definition downtime_fields :: zschema where
  "downtime_fields = z_object
     [(''reporter'', z_string no_params [StrMin 2 (Some ''Please enter the reporter's name.'')]),
      (''department'', z_enum departments (required ''Select a department.'')),
      (''departmentOther'', z_optional (z_string no_params [])),
      (''reason'', z_enum reasons (required ''Select a reason.'')),
      (''reasonOther'', z_optional (z_string no_params [])),
      (''startDate'', z_string no_params [StrMin 1 (Some ''Select a start date.'')]),
      (''startTime'', z_string no_params [StrMin 1 (Some ''Select a start time.'')]),
      (''details'', z_optional (z_string no_params [])),
      (''immediateAction'', z_optional (z_string no_params []))]"

definition FormSchema_Downtime :: "(string \<Rightarrow> int option) \<Rightarrow> zschema" where
  "FormSchema_Downtime parse = z_superRefine downtime_fields (downtime_refinement parse)"

datatype js_error = TypeError | RangeError

text \<open>\<^verbatim>\<open>new Date(`${d}T${t}`).toISOString()\<close> throws a RangeError on an invalid date.\<close>

definition combineISO ::
  "(string \<Rightarrow> int option) \<Rightarrow> (int \<Rightarrow> string) \<Rightarrow> jsval \<Rightarrow> jsval \<Rightarrow> js_error + string" where
  "combineISO parse toISO d t =
     (case parse (date_time_string d t) of
        None \<Rightarrow> Inl RangeError
      | Some ms \<Rightarrow> Inr (toISO ms))"

text \<open>\<^verbatim>\<open>v?.trim() || null\<close>.\<close>

definition trim_or_null :: "jsval \<Rightarrow> jsval" where
  "trim_or_null v = (if truthy (opt_trim v) then opt_trim v else Null)"

text \<open>
  The payload that \<^verbatim>\<open>onSubmit\<close> builds from the values the resolver hands over and passes
  to \<^verbatim>\<open>saveDowntime\<close>. \<^verbatim>\<open>values.reporter.trim()\<close> throws a TypeError unless
  \<open>reporter\<close> is a string.
\<close>

text \<open>\<^verbatim>\<open>values.f === "Other" ? values.fOther?.trim() : values.f\<close>.\<close>

definition other_or_selected :: "string \<Rightarrow> jsval \<Rightarrow> jsval" where
  "other_or_selected f values =
     (if get_prop values f = JStr ''Other'' then opt_trim (get_prop values (f @ ''Other''))
      else get_prop values f)"

definition downtime_payload ::
  "(string \<Rightarrow> int option) \<Rightarrow> (int \<Rightarrow> string) \<Rightarrow> jsval \<Rightarrow> js_error + jsval" where
  "downtime_payload parse toISO values =
     (case get_prop values ''reporter'' of
        JStr r \<Rightarrow>
          (case combineISO parse toISO (get_prop values ''startDate'') (get_prop values ''startTime'') of
             Inl e \<Rightarrow> Inl e
           | Inr startISO \<Rightarrow>
               Inr (JObj
                 [(''reporter'', JStr (trim r)),
                  (''department'', other_or_selected ''department'' values),
                  (''reason'', other_or_selected ''reason'' values),
                  (''startISO'', JStr startISO),
                  (''details'', trim_or_null (get_prop values ''details'')),
                  (''immediateAction'', trim_or_null (get_prop values ''immediateAction''))]))
      | _ \<Rightarrow> Inl TypeError)"

text \<open>
  \<^verbatim>\<open>form.handleSubmit(onSubmit)\<close>: the resolver parses the record; a rejected record never
  reaches \<^verbatim>\<open>onSubmit\<close>, an accepted one is handed over as parsed.
\<close>

definition downtime_submit ::
  "(string \<Rightarrow> int option) \<Rightarrow> (int \<Rightarrow> string) \<Rightarrow> jsval \<Rightarrow> (js_error + jsval) option" where
  "downtime_submit parse toISO record =
     (case safeParse (FormSchema_Downtime parse) record of
        Failure iss \<Rightarrow> None
      | Success values \<Rightarrow> Some (downtime_payload parse toISO values))"

section \<open>Employment details (Stock\_Receipt.tsx)\<close>

definition EMPLOYMENT_TYPES :: "string list" where
  "EMPLOYMENT_TYPES = [''Full-time'', ''Part-time'', ''Contract'', ''Intern'']"

definition WORK_LOCATIONS :: "string list" where
  "WORK_LOCATIONS = [''Mutapa Store'', ''Mutapa Workshop'', ''Shurugwi Road Workshop'', ''Other'']"

definition STATUS_TYPES :: "string list" where
  "STATUS_TYPES = [''Active'', ''On Leave'', ''Resigned'', ''Retired'', ''Other'']"

definition OCCUPATIONS :: "string list" where
  "OCCUPATIONS =
     [''Receptionist'', ''Carpenter'', ''Machinist'', ''Surface Finisher'', ''Painter'',
      ''Upholsterer'', ''Sewing Machine Operator'', ''Liner Installer'',
      ''Production Supervisor'', ''Assembly Line Worker'', ''Quality Control Inspector'',
      ''Maintenance Technician'', ''Health & Safety Officer'', ''Warehouse Manager'',
      ''Packaging Specialist'', ''Delivery Driver'', ''Sales Consultant'',
      ''Marketing Coordinator'', ''General Manager'', ''Procurement Officer'',
      ''Administrative Assistant'', ''CAD Technician'', ''Graphic Designer'', ''Other'']"

text \<open>
  The loop of the refinement: \<open>seen\<close> is the \<^verbatim>\<open>Set\<close>; the result tells whether the issue
  was added (the loop breaks at the first role already seen).
\<close>

fun duplicate_seen :: "jsval list \<Rightarrow> jsval set \<Rightarrow> bool" where
  "duplicate_seen [] seen = False"
| "duplicate_seen (r # rs) seen = (if r \<in> seen then True else duplicate_seen rs (insert r seen))"

fun array_items :: "jsval \<Rightarrow> jsval list" where
  "array_items (JArr xs) = xs"
| "array_items _ = []"

definition secondaryRoles_refinement :: "jsval \<Rightarrow> (seg list \<times> string) list" where
  "secondaryRoles_refinement v =
     (if duplicate_seen (array_items (get_prop v ''secondaryRoles'')) {}
      then [([Key ''secondaryRoles''], ''Duplicate secondary roles are not allowed'')]
      else [])"

fun is_valid_Date :: "jsval \<Rightarrow> bool" where
  "is_valid_Date (JDate (Some t)) = True"
| "is_valid_Date _ = False"

definition employment_fields :: zschema where
  "employment_fields = z_object
     [(''employeeId'',
         z_string (required ''Employee ID is required'')
           [StrTrim, StrMin 1 (Some ''Employee ID is required''),
            StrMax 32 (Some ''Employee ID is too long'')]),
      (''primaryRole'', z_enum OCCUPATIONS (required ''Primary role is required'')),
      (''secondaryRoles'', z_default (z_array (z_enum OCCUPATIONS no_params) None) (JArr [])),
      (''dateOfJoiningDate'', z_date (required ''Date of joining is required'')),
      (''employmentType'', z_enum EMPLOYMENT_TYPES (required ''Employment Type is required'')),
      (''workLocation'', z_enum WORK_LOCATIONS (required ''Work Location is required'')),
      (''status'', z_enum STATUS_TYPES (required ''Status is required''))]"

definition EmploymentDetailsSchema :: zschema where
  "EmploymentDetailsSchema =
     z_refine (z_superRefine employment_fields secondaryRoles_refinement)
       (\<lambda>v. is_valid_Date (get_prop v ''dateOfJoiningDate''))
       [Key ''dateOfJoiningDate''] ''Invalid date''"

section \<open>Casket form (Stock\_Receipt.tsx)\<close>

text \<open>
  \<^verbatim>\<open>z.preprocess(f, s)\<close> parses \<open>f v\<close> with \<open>s\<close>. \<^verbatim>\<open>Number(v)\<close> is computed here for
  the primitive values; \<open>toNumber\<close> stands for the runtime's conversion of the others
  (strings, arrays, objects).
\<close>

definition z_preprocess :: "(jsval \<Rightarrow> jsval) \<Rightarrow> zschema \<Rightarrow> zschema" where
  "z_preprocess f s p v = s p (f v)"

fun js_Number :: "(jsval \<Rightarrow> jsnum) \<Rightarrow> jsval \<Rightarrow> jsnum" where
  "js_Number toNumber Undefined = NaN"
| "js_Number toNumber Null = Fin 0"
| "js_Number toNumber (JBool b) = (if b then Fin 1 else Fin 0)"
| "js_Number toNumber (JNum n) = n"
| "js_Number toNumber (JDate None) = NaN"
| "js_Number toNumber (JDate (Some t)) = Fin (of_int t)"
| "js_Number toNumber v = toNumber v"

definition schema_CasketForm :: "(jsval \<Rightarrow> jsnum) \<Rightarrow> zschema" where
  "schema_CasketForm toNumber = z_object
     [(''type'', z_string no_params [StrMin 1 (Some ''Type is required'')]),
      (''typeOther'', z_optional (z_string no_params [])),
      (''name'', z_string no_params [StrMin 1 (Some ''Name is required'')]),
      (''price'',
         z_refine
           (z_preprocess (\<lambda>v. if v = JStr [] then Undefined else JNum (js_Number toNumber v))
              (z_number no_params [NumMin 0 False (Some ''Price must be > 0'')]))
           (\<lambda>v. v \<noteq> Undefined) [] ''Price is required''),
      (''material'', z_string no_params [StrMin 1 (Some ''Material is required'')]),
      (''materialOther'', z_optional (z_string no_params [])),
      (''exteriorFinish'', z_string no_params [StrMin 1 (Some ''Exterior Finish is required'')]),
      (''colour'', z_string no_params [StrMin 1 (Some ''Colour is required'')]),
      (''colourOther'', z_optional (z_string no_params [])),
      (''interiorFinish'', z_string no_params [StrMin 1 (Some ''Interior Finish is required'')]),
      (''interiorFinishOther'', z_optional (z_string no_params [])),
      (''hardware'', z_default (z_array (z_string no_params []) (Some (0, None))) (JArr []))]"

section \<open>Two-step customer form (Customer\_V2.tsx)\<close>

text \<open>
  The form has no schema: react-hook-form validates the rules given to \<^verbatim>\<open>register\<close>
  (only \<open>customerName\<close> has one), and the date rule is written out in \<^verbatim>\<open>nextStep\<close> and
  in \<^verbatim>\<open>onSubmit\<close>, the handler that \<^verbatim>\<open>handleSubmit\<close> calls with the values once the
  registered rules hold. The state is the step shown, the values of the inputs, the error
  of each field, and the records that reached \<^verbatim>\<open>console.log\<close>.
\<close>

record FormData =
  customerName :: string
  phone :: string
  email :: "string option"
  deceasedName :: string
  birthDate :: "string option"
  deathDate :: string
  gender :: string

record customer_form =
  step :: nat
  form_data :: FormData
  errors :: "string \<rightharpoonup> string"
  submitted :: "FormData list"

definition steps :: "string list" where
  "steps = [''Customer Details'', ''Deceased Details'']"

definition fieldsPerStep :: "nat \<Rightarrow> string list option" where
  "fieldsPerStep n =
     (if n = 0 then Some [''customerName'', ''phone'', ''email'']
      else if n = 1 then Some [''deceasedName'', ''birthDate'', ''deathDate'', ''gender'']
      else None)"

text \<open>
  \<^verbatim>\<open>birthDate && deathDate && new Date(deathDate) < new Date(birthDate)\<close>: an empty or
  missing string is falsy, and a comparison with an invalid date is false.
\<close>

definition death_before_birth :: "(string \<Rightarrow> int option) \<Rightarrow> FormData \<Rightarrow> bool" where
  "death_before_birth parse d =
     (case birthDate d of
        None \<Rightarrow> False
      | Some b \<Rightarrow>
          b \<noteq> [] \<and> deathDate d \<noteq> [] \<and>
          (case (parse (deathDate d), parse b) of
             (Some td, Some tb) \<Rightarrow> td < tb
           | _ \<Rightarrow> False))"

definition death_message :: string where
  "death_message = ''Date of death cannot be before date of birth.''"

text \<open>The registered rules: \<^verbatim>\<open>register('customerName', { required: ... })\<close>.\<close>

definition field_error :: "FormData \<Rightarrow> string \<Rightarrow> string option" where
  "field_error d f =
     (if f = ''customerName'' \<and> customerName d = [] then Some ''Full name is required''
      else None)"

text \<open>
  \<^verbatim>\<open>trigger(fields)\<close> validates the named fields: each gets its error, or loses the one
  it had; the result tells whether all of them are valid.
\<close>

definition trigger :: "customer_form \<Rightarrow> string list \<Rightarrow> bool \<times> customer_form" where
  "trigger st names =
     (list_all (\<lambda>f. field_error (form_data st) f = None) names,
      st\<lparr>errors := foldl (\<lambda>e f. e(f := field_error (form_data st) f)) (errors st) names\<rparr>)"

definition nextStep :: "(string \<Rightarrow> int option) \<Rightarrow> customer_form \<Rightarrow> customer_form" where
  "nextStep parse st =
     (let (ok, st1) =
            (case fieldsPerStep (step st) of
               Some names \<Rightarrow> if names \<noteq> [] then trigger st names else (True, st)
             | None \<Rightarrow> (True, st))
      in if \<not> ok then st1
         else if step st1 = 1 \<and> death_before_birth parse (form_data st1)
         then st1\<lparr>errors := (errors st1)(''deathDate'' \<mapsto> death_message)\<rparr>
         else st1\<lparr>step := min (step st1 + 1) (length steps - 1)\<rparr>)"

definition onSubmit_customer ::
  "(string \<Rightarrow> int option) \<Rightarrow> customer_form \<Rightarrow> FormData \<Rightarrow> customer_form" where
  "onSubmit_customer parse st d =
     (if death_before_birth parse d
      then st\<lparr>errors := (errors st)(''deathDate'' \<mapsto> death_message), step := 1\<rparr>
      else st\<lparr>submitted := submitted st @ [d]\<rparr>)"

section \<open>User registration (Stock\_Receipt.tsx)\<close>

text \<open>
  The draft lives under \<open>DRAFT_KEY\<close> in two stores, \<^verbatim>\<open>localStorage\<close> (strings) and
  IndexedDB (values). What the collaborators do in one call of \<^verbatim>\<open>onSubmit\<close> is given by
  an environment: whether \<^verbatim>\<open>submitToServer\<close> resolves or rejects (with the message of
  the error, if it has one), and whether \<^verbatim>\<open>localStorage.removeItem\<close> throws or
  \<^verbatim>\<open>del\<close> rejects. The state also records the payloads sent to the server.
\<close>

definition DRAFT_KEY :: string where
  "DRAFT_KEY = ''user-form-draft''"

datatype server_outcome = Resolved | Rejected "string option"

record env =
  server :: server_outcome
  removeItem_throws :: bool
  del_rejects :: bool

datatype toast_action = Retry

record toast =
  destructive :: bool
  title :: string
  description :: string
  actionLabel :: "string option"
  onAction :: "toast_action option"

record registration =
  localStorage :: "string \<rightharpoonup> string"
  idb :: "string \<rightharpoonup> jsval"
  form_values :: jsval
  requests :: "jsval list"
  toasts :: "toast list"
  lastError :: "string option"
  isSubmitting :: bool
  location :: "string option"

text \<open>
  \<^verbatim>\<open>clearDrafts\<close>: the two removals are in one \<^verbatim>\<open>try\<close> block whose \<^verbatim>\<open>catch\<close>
  ignores the error, so a removal that fails skips what follows it.
\<close>

definition clearDrafts :: "env \<Rightarrow> registration \<Rightarrow> registration" where
  "clearDrafts e st =
     (if removeItem_throws e then st
      else let st1 = st\<lparr>localStorage := (localStorage st)(DRAFT_KEY := None)\<rparr>
           in if del_rejects e then st1
              else st1\<lparr>idb := (idb st1)(DRAFT_KEY := None)\<rparr>)"

definition onSubmit_registration :: "env \<Rightarrow> registration \<Rightarrow> jsval \<Rightarrow> registration" where
  "onSubmit_registration e st vals =
     (let st1 = st\<lparr>isSubmitting := True, lastError := None, requests := requests st @ [vals]\<rparr>;
          st2 =
            (case server e of
               Resolved \<Rightarrow>
                 (let st' = clearDrafts e st1
                  in st'\<lparr>toasts := toasts st' @
                            [\<lparr>destructive = False, title = ''User created'',
                              description = ''We saved your changes successfully.'',
                              actionLabel = None, onAction = None\<rparr>],
                          location := Some ''/success''\<rparr>)
             | Rejected m \<Rightarrow>
                 (let message =
                        (case m of
                           Some msg \<Rightarrow> if msg \<noteq> [] then msg else ''Unable to save. Please try again.''
                         | None \<Rightarrow> ''Unable to save. Please try again.'')
                  in st1\<lparr>lastError := Some message,
                          toasts := toasts st1 @
                            [\<lparr>destructive = True, title = ''Something went wrong'',
                              description = message,
                              actionLabel = Some ''Retry'', onAction = Some Retry\<rparr>]\<rparr>))
      in st2\<lparr>isSubmitting := False\<rparr>)"

text \<open>The action of a toast: \<^verbatim>\<open>() => onSubmit(form.getValues())\<close>.\<close>

fun run_action :: "env \<Rightarrow> registration \<Rightarrow> toast_action \<Rightarrow> registration" where
  "run_action e st Retry = onSubmit_registration e st (form_values st)"

text \<open>
  Loading on mount: the IndexedDB draft, else the parsed \<^verbatim>\<open>localStorage\<close> draft; the
  form is reset to it when it is truthy. \<open>json_parse\<close> is \<^verbatim>\<open>JSON.parse\<close>, \<open>None\<close> when it
  throws (the error is ignored and nothing is loaded).
\<close>

definition loadDraft :: "(string \<Rightarrow> jsval option) \<Rightarrow> registration \<Rightarrow> jsval option" where
  "loadDraft json_parse st =
     (let dbDraft = (case idb st DRAFT_KEY of Some d \<Rightarrow> d | None \<Rightarrow> Undefined);
          lsDraft =
            (case localStorage st DRAFT_KEY of
               Some raw \<Rightarrow> if raw \<noteq> [] then json_parse raw else Some Undefined
             | None \<Rightarrow> Some Undefined)
      in case lsDraft of
           None \<Rightarrow> None
         | Some l \<Rightarrow>
             (let draft = (if truthy dbDraft then dbDraft else l)
              in if truthy draft then Some draft else None))"

section \<open>Records used in the scenarios\<close>

text \<open>A flat-casket line with every choice made, and its quantity left open.\<close>

definition flat_line :: "jsval \<Rightarrow> jsval" where
  "flat_line q = JObj
     [(''material'', JStr ''Superwood''), (''tier'', JStr ''Flat''), (''size'', JStr ''Adult''),
      (''color'', JStr ''White''), (''quantity'', q)]"

definition order_part_000 :: "jsval \<Rightarrow> jsval" where
  "order_part_000 q = JObj
     [(''flatCaskets'', JArr [flat_line q]), (''fishCoffins'', JArr []), (''domeCaskets'', JArr [])]"

definition job_filled :: "jsval \<Rightarrow> jsval \<Rightarrow> jsval" where
  "job_filled duration unit = JObj
     [(''expectedStartDate'', JStr ''2025-01-01''), (''expectedStartTime'', JStr ''08:00''),
      (''expectedDurationValue'', duration), (''expectedDurationUnit'', unit),
      (''assignedTo'', JStr ''Workshop Team''), (''requestedBy'', JStr ''Manager'')]"

definition fish_line :: jsval where
  "fish_line = JObj
     [(''fishType'', JStr ''Tilapia''), (''size'', JStr ''Adult''), (''color'', JStr ''White''),
      (''quantity'', JNum (Fin 1))]"

definition dome_line :: jsval where
  "dome_line = JObj
     [(''material'', JStr ''Superwood''), (''size'', JStr ''Adult''), (''color'', JStr ''Brown''),
      (''quantity'', JNum (Fin 1))]"

definition order_Production_Order :: "jsval \<Rightarrow> jsval \<Rightarrow> jsval" where
  "order_Production_Order job line = JObj
     [(''job'', job), (''coffinFishes'', JArr [fish_line]), (''flatCaskets'', JArr [line]),
      (''domeCaskets'', JArr [dome_line])]"

text \<open>The employee of the schema's own tests, with the roles left open.\<close>

definition employee :: "string \<Rightarrow> jsval list \<Rightarrow> jsval" where
  "employee primary secondary = JObj
     [(''employeeId'', JStr ''EMP-001''), (''primaryRole'', JStr primary),
      (''secondaryRoles'', JArr secondary), (''dateOfJoiningDate'', JDate (Some 1704153600000)),
      (''employmentType'', JStr ''Full-time''), (''workLocation'', JStr ''Mutapa Store''),
      (''status'', JStr ''Active'')]"

text \<open>
  A casket with every required field filled in, every choice set to "Other" and every
  companion field left empty. No string has to be converted for it, so the conversion of the
  runtime can be one that reads nothing as a number.
\<close>

definition casket_other :: jsval where
  "casket_other = JObj
     [(''type'', JStr ''Other''), (''typeOther'', JStr []), (''name'', JStr ''Classic Dome''),
      (''price'', JNum (Fin 100)), (''material'', JStr ''Other''), (''materialOther'', JStr []),
      (''exteriorFinish'', JStr ''Gloss Painted''), (''colour'', JStr ''Other''),
      (''colourOther'', JStr []), (''interiorFinish'', JStr ''Other''),
      (''interiorFinishOther'', JStr []), (''hardware'', JArr [])]"

definition unconverted :: "jsval \<Rightarrow> jsnum" where
  "unconverted v = NaN"

text \<open>
  A downtime record with padded texts, and a runtime that knows its one date: 08:00 on the
  first day of 2025, read and written in UTC.
\<close>

definition downtime_record :: jsval where
  "downtime_record = JObj
     [(''reporter'', JStr '' Tendai ''), (''department'', JStr ''Other''),
      (''departmentOther'', JStr '' Packing ''), (''reason'', JStr ''Maintenance''),
      (''reasonOther'', JStr []), (''startDate'', JStr ''2025-01-01''),
      (''startTime'', JStr ''08:00''), (''details'', JStr ''   ''),
      (''immediateAction'', JStr ''Called the electrician'')]"

definition parse_2025 :: "string \<Rightarrow> int option" where
  "parse_2025 s = (if s = ''2025-01-01T08:00'' then Some 1735718400000 else None)"

definition toISO_2025 :: "int \<Rightarrow> string" where
  "toISO_2025 t = (if t = 1735718400000 then ''2025-01-01T08:00:00.000Z'' else [])"

text \<open>
  A customer whose date of death is a year before the date of birth, with a runtime that
  knows these two dates; the form showing the second step; and a registration form whose
  draft is in both stores, with a \<^verbatim>\<open>JSON.parse\<close> that reads nothing.
\<close>

definition customer_1950 :: FormData where
  "customer_1950 =
     \<lparr>customerName = ''Rudo Moyo'', phone = ''+263 77 123 4567'', email = Some [],
      deceasedName = ''Tawanda Moyo'', birthDate = Some ''1950-06-01'',
      deathDate = ''1949-06-01'', gender = ''Male''\<rparr>"

definition parse_1950 :: "string \<Rightarrow> int option" where
  "parse_1950 s =
     (if s = ''1950-06-01'' then Some (- 618105600000)
      else if s = ''1949-06-01'' then Some (- 649641600000)
      else None)"

definition second_step :: "FormData \<Rightarrow> customer_form" where
  "second_step d = \<lparr>step = 1, form_data = d, errors = Map.empty, submitted = []\<rparr>"

definition draft_user :: jsval where
  "draft_user = JObj [(''firstName'', JStr ''Jane''), (''lastName'', JStr ''Doe''),
     (''role'', JStr ''Manager'')]"

definition registration_with_draft :: registration where
  "registration_with_draft =
     \<lparr>localStorage = [DRAFT_KEY \<mapsto> ''{\"firstName\":\"Jane\",\"lastName\":\"Doe\",\"role\":\"Manager\"}''],
      idb = [DRAFT_KEY \<mapsto> draft_user], form_values = draft_user, requests = [], toasts = [],
      lastError = None, isSubmitting = False, location = None\<rparr>"

definition no_json :: "string \<Rightarrow> jsval option" where
  "no_json s = None"

section \<open>Auxiliary notions\<close>

text \<open>
  A schema is preserving when a parse that does not abort returns the value it was given
  (no trimming, no default): the refinements of such fields see the submitted values.
\<close>

definition preserving :: "zschema \<Rightarrow> bool" where
  "preserving s \<longleftrightarrow> (\<forall>p x. \<not> is_invalid (fst (s p x)) \<longrightarrow> ret_value (fst (s p x)) = x)"

section \<open>Properties of the validation library\<close>

lemma is_ok_iff: "is_ok r \<longleftrightarrow> \<not> is_invalid r \<and> \<not> is_dirty r"
  by (cases r) simp_all

lemma merge_status_invalid: "is_invalid (merge_status d rs out) \<longleftrightarrow> (\<exists>r \<in> set rs. is_invalid r)"
  by (simp add: merge_status_def mk_return_def list_ex_iff)

lemma merge_status_value: "\<not> is_invalid (merge_status d rs out) \<Longrightarrow> ret_value (merge_status d rs out) = out"
  by (simp add: merge_status_def mk_return_def split: if_splits)

lemma merge_status_ok: "is_ok (merge_status d rs out) \<longleftrightarrow> \<not> d \<and> (\<forall>r \<in> set rs. is_ok r)"
  by (auto simp: merge_status_def mk_return_def list_ex_iff is_ok_iff)

subsection \<open>Objects\<close>

lemma z_object_fst:
  "fst (z_object shape p (JObj kvs)) =
     merge_status False (map (\<lambda>(k, s). fst (s (p @ [Key k]) (obj_get kvs k))) shape)
       (object_out kvs (map (\<lambda>(k, s). (k, s (p @ [Key k]) (obj_get kvs k))) shape))"
  by (simp add: z_object_def Let_def comp_def case_prod_unfold)

lemma z_object_snd:
  "snd (z_object shape p (JObj kvs)) = concat (map (\<lambda>(k, s). snd (s (p @ [Key k]) (obj_get kvs k))) shape)"
  by (simp add: z_object_def Let_def comp_def case_prod_unfold)

lemma z_object_not_object: "\<forall>kvs. v \<noteq> JObj kvs \<Longrightarrow> fst (z_object shape p v) = INVALID"
  by (cases v) (simp_all add: z_object_def)

lemma z_object_invalid_iff:
  "is_invalid (fst (z_object shape p (JObj kvs))) \<longleftrightarrow>
     (\<exists>(k, s) \<in> set shape. is_invalid (fst (s (p @ [Key k]) (obj_get kvs k))))"
  by (simp add: z_object_fst merge_status_invalid case_prod_unfold)

lemma z_object_field_issues:
  assumes "(k, s) \<in> set shape"
  shows "set (snd (s (p @ [Key k]) (obj_get kvs k))) \<subseteq> set (snd (z_object shape p (JObj kvs)))"
  using assms by (force simp add: z_object_snd)

lemma obj_get_filter_map:
  assumes "distinct (map fst rs)" and "(k, r) \<in> set rs"
  shows "obj_get (map (\<lambda>(k, r). (k, g r)) (filter P rs)) k = (if P (k, r) then g r else Undefined)"
  using assms
proof (induction rs)
  case Nil
  then show ?case by simp
next
  case (Cons a rs)
  obtain k' r' where a: "a = (k', r')" by (cases a)
  show ?case
  proof (cases "k' = k")
    case True
    with Cons.prems a have r: "r' = r"
      by (force simp: image_iff)
    from Cons.prems a True have "k \<notin> fst ` set (filter P rs)"
      by (force simp: image_iff)
    then have "map_of (map (\<lambda>(k, r). (k, g r)) (filter P rs)) k = None"
      by (force simp: map_of_eq_None_iff image_iff)
    with True a r show ?thesis
      by (simp add: obj_get_def)
  next
    case False
    with Cons a show ?thesis
      by (auto simp: obj_get_def)
  qed
qed

lemma object_out_get:
  assumes "distinct (map fst shape)" and "(k, s) \<in> set shape"
  shows "get_prop (object_out kvs (map (\<lambda>(k, s). (k, s (p @ [Key k]) (obj_get kvs k))) shape)) k
       = ret_value (fst (s (p @ [Key k]) (obj_get kvs k)))"
proof -
  let ?rs = "map (\<lambda>(k, s). (k, s (p @ [Key k]) (obj_get kvs k))) shape"
  have "map fst ?rs = map fst shape"
    by (induction shape) auto
  with assms(1) have d: "distinct (map fst ?rs)"
    by (simp only:)
  from assms(2) have m: "(k, s (p @ [Key k]) (obj_get kvs k)) \<in> set ?rs"
    by force
  show ?thesis
    unfolding object_out_def get_prop.simps
    by (subst obj_get_filter_map[OF d m]) simp
qed

lemma z_object_value_get:
  assumes "\<not> is_invalid (fst (z_object shape p v))"
    and "distinct (map fst shape)" and "(k, s) \<in> set shape"
  shows "get_prop (ret_value (fst (z_object shape p v))) k
       = ret_value (fst (s (p @ [Key k]) (get_prop v k)))"
proof (cases v)
  case (JObj kvs)
  with assms(1) have "ret_value (fst (z_object shape p v))
      = object_out kvs (map (\<lambda>(k, s). (k, s (p @ [Key k]) (obj_get kvs k))) shape)"
    by (simp add: z_object_fst merge_status_value)
  with JObj show ?thesis
    by (simp add: object_out_get[OF assms(2,3)])
qed (use assms(1) in \<open>simp_all add: z_object_def\<close>)

lemma z_object_field_not_invalid:
  assumes "\<not> is_invalid (fst (z_object shape p v))" and "(k, s) \<in> set shape"
  shows "\<not> is_invalid (fst (s (p @ [Key k]) (get_prop v k)))"
proof (cases v)
  case (JObj kvs)
  with assms show ?thesis
    by (auto simp add: z_object_invalid_iff)
qed (use assms(1) in \<open>simp_all add: z_object_def\<close>)

subsection \<open>Refinements\<close>

lemma z_superRefine_invalid_iff:
  "is_invalid (fst (z_superRefine s f p v)) \<longleftrightarrow> is_invalid (fst (s p v))"
  by (cases "s p v"; cases "fst (s p v)") (auto simp: z_superRefine_def mk_return_def Let_def)

lemma z_superRefine_value:
  "ret_value (fst (z_superRefine s f p v)) = ret_value (fst (s p v))"
  by (cases "s p v"; cases "fst (s p v)") (auto simp: z_superRefine_def mk_return_def Let_def)

lemma z_superRefine_ok_iff:
  "is_ok (fst (z_superRefine s f p v)) \<longleftrightarrow> is_ok (fst (s p v)) \<and> f (ret_value (fst (s p v))) = []"
  by (cases "s p v"; cases "fst (s p v)") (auto simp: z_superRefine_def mk_return_def Let_def)

lemma z_superRefine_issues:
  "snd (z_superRefine s f p v) =
     snd (s p v) @ (if is_invalid (fst (s p v)) then []
                    else map (\<lambda>(rp, m). Issue (p @ rp) custom (Some m)) (f (ret_value (fst (s p v)))))"
  by (cases "s p v"; cases "fst (s p v)") (auto simp: z_superRefine_def mk_return_def Let_def)

lemma z_refine_invalid_iff:
  "is_invalid (fst (z_refine s c rp m p v)) \<longleftrightarrow> is_invalid (fst (s p v))"
  by (simp add: z_refine_def z_superRefine_invalid_iff)

lemma z_refine_value:
  "ret_value (fst (z_refine s c rp m p v)) = ret_value (fst (s p v))"
  by (simp add: z_refine_def z_superRefine_value)

lemma z_refine_ok_iff:
  "is_ok (fst (z_refine s c rp m p v)) \<longleftrightarrow> is_ok (fst (s p v)) \<and> c (ret_value (fst (s p v)))"
  by (simp add: z_refine_def z_superRefine_ok_iff)

lemma z_refine_issues:
  "snd (z_refine s c rp m p v) =
     snd (s p v) @ (if is_invalid (fst (s p v)) \<or> c (ret_value (fst (s p v))) then []
                    else [Issue (p @ rp) custom (Some m)])"
  by (simp add: z_refine_def z_superRefine_issues)

subsection \<open>Arrays\<close>

lemma z_array_ok_elem:
  assumes "is_ok (fst (z_array elem ml p (JArr xs)))" and "i < length xs"
  shows "is_ok (fst (elem (p @ [Idx i]) (xs ! i)))"
proof -
  let ?rs = "map (\<lambda>(i, x). elem (p @ [Idx i]) x) (enumerate 0 xs)"
  from assms(1) have "\<forall>r \<in> set (map fst ?rs). is_ok r"
    by (simp add: z_array_def Let_def merge_status_ok)
  moreover from assms(2) have "fst (elem (p @ [Idx i]) (xs ! i)) = map fst ?rs ! i"
    by (simp add: nth_enumerate_eq)
  moreover from assms(2) have "i < length (map fst ?rs)"
    by simp
  ultimately show ?thesis
    by (metis nth_mem)
qed

lemma z_array_elem_issues:
  assumes "i < length xs"
  shows "set (snd (elem (p @ [Idx i]) (xs ! i))) \<subseteq> set (snd (z_array elem ml p (JArr xs)))"
proof -
  let ?rs = "map (\<lambda>(i, x). elem (p @ [Idx i]) x) (enumerate 0 xs)"
  from assms have "elem (p @ [Idx i]) (xs ! i) = ?rs ! i" and "i < length ?rs"
    by (simp_all add: nth_enumerate_eq)
  then have "elem (p @ [Idx i]) (xs ! i) \<in> set ?rs"
    by (metis nth_mem)
  then show ?thesis
    by (auto simp add: z_array_def Let_def)
qed

lemma safeParse_success: "success (safeParse s v) \<longleftrightarrow> is_ok (fst (s [] v))"
  by (auto simp: safeParse_def split: prod.splits parse_return.splits)

lemma safeParse_issues: "\<not> is_ok (fst (s [] v)) \<Longrightarrow> issues (safeParse s v) = snd (s [] v)"
  by (auto simp: safeParse_def split: prod.splits parse_return.splits)

lemma z_object_field_ok:
  assumes "is_ok (fst (z_object shape p v))" and "(k, s) \<in> set shape"
  shows "is_ok (fst (s (p @ [Key k]) (get_prop v k)))"
proof (cases v)
  case (JObj kvs)
  with assms(1) have "\<forall>ks \<in> set shape. is_ok (fst (snd ks (p @ [Key (fst ks)]) (obj_get kvs (fst ks))))"
    by (simp add: z_object_fst merge_status_ok case_prod_unfold)
  with assms(2) JObj show ?thesis
    by force
qed (use assms(1) in \<open>simp_all add: z_object_def\<close>)

lemma floor_rat_numeral_div: "\<lfloor>numeral a / numeral b :: rat\<rfloor> = numeral a div numeral b"
  by (metis floor_divide_of_int_eq of_int_numeral)

lemma z_object_array_item_ok:
  assumes "is_ok (fst (z_object shape p v))" and "(arr, z_array elem ml) \<in> set shape"
    and "get_prop v arr = JArr items" and "it \<in> set items"
  shows "\<exists>i. is_ok (fst (elem (p @ [Key arr, Idx i]) it))"
proof -
  from assms(1,2) have "is_ok (fst (z_array elem ml (p @ [Key arr]) (get_prop v arr)))"
    by (rule z_object_field_ok)
  moreover from assms(4) obtain i where "i < length items" and "items ! i = it"
    by (auto simp: in_set_conv_nth)
  ultimately have "is_ok (fst (elem ((p @ [Key arr]) @ [Idx i]) it))"
    using assms(3) z_array_ok_elem by metis
  then show ?thesis by auto
qed

lemma z_literal_ok_iff: "is_ok (fst (z_literal lit p v)) \<longleftrightarrow> v = lit"
  by (simp add: z_literal_def)

lemma baseQuantity_ok_iff:
  "is_ok (fst (baseQuantity p v)) \<longleftrightarrow> (\<exists>n::int. 1 \<le> n \<and> v = JNum (Fin (of_int n)))"
proof
  assume ok: "is_ok (fst (baseQuantity p v))"
  then obtain x where v: "v = JNum x"
    by (cases v) (simp_all add: baseQuantity_def z_number_def)
  with ok obtain r where x: "x = Fin r"
    by (cases x) (simp_all add: baseQuantity_def z_number_def mk_return_def)
  with ok v have "isInteger (Fin r)" and "1 \<le> r"
    by (simp_all add: baseQuantity_def z_number_def mk_return_def split: if_splits)
  then obtain n :: int where "r = of_int n"
    by auto
  with \<open>1 \<le> r\<close> v x have "1 \<le> n \<and> v = JNum (Fin (of_int n))"
    by simp
  then show "\<exists>n::int. 1 \<le> n \<and> v = JNum (Fin (of_int n))" ..
next
  assume "\<exists>n::int. 1 \<le> n \<and> v = JNum (Fin (of_int n))"
  then show "is_ok (fst (baseQuantity p v))"
    by (auto simp: baseQuantity_def z_number_def mk_return_def)
qed

lemma flat_item_quantity_ok:
  assumes "is_ok (fst (flat_item quantity p v))"
  shows "is_ok (fst (quantity (p @ [Key ''quantity'']) (get_prop v ''quantity'')))"
proof -
  from assms have "is_ok (fst (flat_fields quantity p v))"
    by (simp add: flat_item_def z_refine_ok_iff)
  then show ?thesis
    unfolding flat_fields_def by (rule z_object_field_ok) simp
qed

lemma dome_item_quantity_ok:
  assumes "is_ok (fst (dome_item quantity p v))"
  shows "is_ok (fst (quantity (p @ [Key ''quantity'']) (get_prop v ''quantity'')))"
proof -
  from assms have "is_ok (fst (dome_fields quantity p v))"
    by (simp add: dome_item_def z_refine_ok_iff)
  then show ?thesis
    unfolding dome_fields_def by (rule z_object_field_ok) simp
qed

lemma coffinFishes_item_quantity_ok:
  assumes "is_ok (fst (coffinFishes_item p v))"
  shows "is_ok (fst (baseQuantity (p @ [Key ''quantity'']) (get_prop v ''quantity'')))"
proof -
  from assms have "is_ok (fst (coffinFishes_fields p v))"
    by (simp add: coffinFishes_item_def z_refine_ok_iff)
  then show ?thesis
    unfolding coffinFishes_fields_def by (rule z_object_field_ok) simp
qed

lemmas schema_defs =
  flat_item_def flat_fields_def dome_item_def dome_fields_def coffinFishes_item_def
  coffinFishes_fields_def job_schema_def job_fields_def enumOrEmpty_def baseQuantity_def
  selected_def other_specified_def
  ASSIGNED_TO_def REQUESTED_BY_def SIZES_COMMON_def COLORS_def FLAT_MATERIALS_def FLAT_TIERS_def
  FLAT_SIZES_def DOME_MATERIALS_def DOME_SIZES_def DURATION_UNITS_def

lemmas record_defs = flat_line_def fish_line_def dome_line_def job_filled_def

lemmas zod_defs =
  z_object_def z_number_def z_string_def z_enum_def z_literal_def z_union_def z_optional_def
  z_default_def z_date_def z_array_def z_superRefine_def z_refine_def z_preprocess_def
  merge_status_def mk_return_def object_out_def obj_get_def type_msg_def no_params_def
  invalid_type_msg_def required_def

section \<open>Production order: the quantity of a line\<close>

lemma flat_line_literal:
  "flat_item (z_literal (JNum (Fin 1))) p (flat_line (JNum (Fin 1))) = (OK (flat_line (JNum (Fin 1))), [])"
  by (simp add: record_defs schema_defs zod_defs)

lemma flat_line_base:
  "1 \<le> n \<Longrightarrow> flat_item baseQuantity p (flat_line (JNum (Fin (of_int n))))
     = (OK (flat_line (JNum (Fin (of_int n)))), [])"
  by (simp add: record_defs schema_defs zod_defs)

lemma fish_line_ok: "coffinFishes_item p fish_line = (OK fish_line, [])"
  by (simp add: record_defs schema_defs zod_defs)

lemma dome_line_ok: "dome_item baseQuantity p dome_line = (OK dome_line, [])"
  by (simp add: record_defs schema_defs zod_defs)

lemma job_filled_ok:
  "job_schema p (job_filled (JNum (Fin 2)) (JStr ''Days''))
     = (OK (job_filled (JNum (Fin 2)) (JStr ''Days'')), [])"
  by (simp add: record_defs schema_defs zod_defs)

lemma z_array_single:
  "z_array elem ml p (JArr [x]) =
     (case elem (p @ [Idx 0]) x of
        (INVALID, iss) \<Rightarrow>
          (INVALID, (case ml of Some (n, m) \<Rightarrow> if 1 < n then [Issue p too_small m] else [] | None \<Rightarrow> []) @ iss)
      | (r, iss) \<Rightarrow>
          (mk_return ((case ml of Some (n, m) \<Rightarrow> 1 < n | None \<Rightarrow> False) \<or> is_dirty r) (JArr [ret_value r]),
           (case ml of Some (n, m) \<Rightarrow> if 1 < n then [Issue p too_small m] else [] | None \<Rightarrow> []) @ iss))"
  by (cases "elem (p @ [Idx 0]) x"; cases "fst (elem (p @ [Idx 0]) x)"; cases ml)
     (auto simp: z_array_def merge_status_def mk_return_def Let_def split: option.splits)

lemma z_array_empty:
  "z_array elem ml p (JArr []) =
     (case ml of
        Some (n, m) \<Rightarrow> if 0 < n then (DIRTY (JArr []), [Issue p too_small m]) else (OK (JArr []), [])
      | None \<Rightarrow> (OK (JArr []), []))"
  by (auto simp: z_array_def merge_status_def mk_return_def Let_def split: option.splits)

lemma order_part_000_ok:
  "schema_part_000 [] (order_part_000 (JNum (Fin 1))) = (OK (order_part_000 (JNum (Fin 1))), [])"
  by (simp add: schema_part_000_def order_part_000_def z_object_def z_array_single z_array_empty
      flat_line_literal merge_status_def mk_return_def object_out_def obj_get_def)

lemma order_Production_Order_ok:
  "1 \<le> n \<Longrightarrow> schema_Production_Order []
       (order_Production_Order (job_filled (JNum (Fin 2)) (JStr ''Days'')) (flat_line (JNum (Fin (of_int n)))))
     = (OK (order_Production_Order (job_filled (JNum (Fin 2)) (JStr ''Days''))
              (flat_line (JNum (Fin (of_int n))))), [])"
  by (simp add: schema_Production_Order_def order_Production_Order_def z_object_def z_array_single
      flat_line_base fish_line_ok dome_line_ok job_filled_ok
      merge_status_def mk_return_def object_out_def obj_get_def)

lemma part_000_line_quantity:
  assumes "success (safeParse schema_part_000 v)"
    and "arr \<in> {''flatCaskets'', ''fishCoffins'', ''domeCaskets''}"
    and "get_prop v arr = JArr items" and "it \<in> set items"
  shows "get_prop it ''quantity'' = JNum (Fin 1)"
proof -
  from assms(1) have ok: "is_ok (fst (schema_part_000 [] v))"
    by (simp add: safeParse_success)
  from assms(2) consider "arr = ''domeCaskets''" | "arr = ''flatCaskets''" | "arr = ''fishCoffins''"
    by blast
  then show ?thesis
  proof cases
    case 1
    have "(arr, z_array (dome_item (z_literal (JNum (Fin 1)))) None)
        \<in> set [(''flatCaskets'', z_array (flat_item (z_literal (JNum (Fin 1)))) None),
               (''fishCoffins'', z_array (flat_item (z_literal (JNum (Fin 1)))) None),
               (''domeCaskets'', z_array (dome_item (z_literal (JNum (Fin 1)))) None)]"
      unfolding 1 by (simp only: list.set insert_iff simp_thms)
    with ok have "\<exists>i. is_ok (fst (dome_item (z_literal (JNum (Fin 1))) ([] @ [Key arr, Idx i]) it))"
      unfolding schema_part_000_def using assms(3,4) by (rule z_object_array_item_ok)
    then show ?thesis
      using dome_item_quantity_ok z_literal_ok_iff by blast
  next
    case 2
    have "(arr, z_array (flat_item (z_literal (JNum (Fin 1)))) None)
        \<in> set [(''flatCaskets'', z_array (flat_item (z_literal (JNum (Fin 1)))) None),
               (''fishCoffins'', z_array (flat_item (z_literal (JNum (Fin 1)))) None),
               (''domeCaskets'', z_array (dome_item (z_literal (JNum (Fin 1)))) None)]"
      unfolding 2 by (simp only: list.set insert_iff simp_thms)
    with ok have "\<exists>i. is_ok (fst (flat_item (z_literal (JNum (Fin 1))) ([] @ [Key arr, Idx i]) it))"
      unfolding schema_part_000_def using assms(3,4) by (rule z_object_array_item_ok)
    then show ?thesis
      using flat_item_quantity_ok z_literal_ok_iff by blast
  next
    case 3
    have "(arr, z_array (flat_item (z_literal (JNum (Fin 1)))) None)
        \<in> set [(''flatCaskets'', z_array (flat_item (z_literal (JNum (Fin 1)))) None),
               (''fishCoffins'', z_array (flat_item (z_literal (JNum (Fin 1)))) None),
               (''domeCaskets'', z_array (dome_item (z_literal (JNum (Fin 1)))) None)]"
      unfolding 3 by (simp only: list.set insert_iff simp_thms)
    with ok have "\<exists>i. is_ok (fst (flat_item (z_literal (JNum (Fin 1))) ([] @ [Key arr, Idx i]) it))"
      unfolding schema_part_000_def using assms(3,4) by (rule z_object_array_item_ok)
    then show ?thesis
      using flat_item_quantity_ok z_literal_ok_iff by blast
  qed
qed

lemma Production_Order_line_quantity:
  assumes "success (safeParse schema_Production_Order v)"
    and "arr \<in> {''coffinFishes'', ''flatCaskets'', ''domeCaskets''}"
    and "get_prop v arr = JArr items" and "it \<in> set items"
  shows "\<exists>n::int. 1 \<le> n \<and> get_prop it ''quantity'' = JNum (Fin (of_int n))"
proof -
  from assms(1) have ok: "is_ok (fst (schema_Production_Order [] v))"
    by (simp add: safeParse_success)
  from assms(2) consider "arr = ''coffinFishes''" | "arr = ''flatCaskets''" | "arr = ''domeCaskets''"
    by blast
  then have "\<exists>p. is_ok (fst (baseQuantity p (get_prop it ''quantity'')))"
  proof cases
    case 1
    have "(arr, z_array coffinFishes_item (Some (1, Some ''Add at least one Coffin (Fish) item'')))
        \<in> set [(''job'', job_schema),
               (''coffinFishes'',
                  z_array coffinFishes_item (Some (1, Some ''Add at least one Coffin (Fish) item''))),
               (''flatCaskets'',
                  z_array (flat_item baseQuantity) (Some (1, Some ''Add at least one Flat Casket''))),
               (''domeCaskets'',
                  z_array (dome_item baseQuantity) (Some (1, Some ''Add at least one Dome Casket'')))]"
      unfolding 1 by (simp only: list.set insert_iff simp_thms)
    with ok have "\<exists>i. is_ok (fst (coffinFishes_item ([] @ [Key arr, Idx i]) it))"
      unfolding schema_Production_Order_def using assms(3,4) by (rule z_object_array_item_ok)
    then show ?thesis
      using coffinFishes_item_quantity_ok by blast
  next
    case 2
    have "(arr, z_array (flat_item baseQuantity) (Some (1, Some ''Add at least one Flat Casket'')))
        \<in> set [(''job'', job_schema),
               (''coffinFishes'',
                  z_array coffinFishes_item (Some (1, Some ''Add at least one Coffin (Fish) item''))),
               (''flatCaskets'',
                  z_array (flat_item baseQuantity) (Some (1, Some ''Add at least one Flat Casket''))),
               (''domeCaskets'',
                  z_array (dome_item baseQuantity) (Some (1, Some ''Add at least one Dome Casket'')))]"
      unfolding 2 by (simp only: list.set insert_iff simp_thms)
    with ok have "\<exists>i. is_ok (fst ((flat_item baseQuantity) ([] @ [Key arr, Idx i]) it))"
      unfolding schema_Production_Order_def using assms(3,4) by (rule z_object_array_item_ok)
    then show ?thesis
      using flat_item_quantity_ok by blast
  next
    case 3
    have "(arr, z_array (dome_item baseQuantity) (Some (1, Some ''Add at least one Dome Casket'')))
        \<in> set [(''job'', job_schema),
               (''coffinFishes'',
                  z_array coffinFishes_item (Some (1, Some ''Add at least one Coffin (Fish) item''))),
               (''flatCaskets'',
                  z_array (flat_item baseQuantity) (Some (1, Some ''Add at least one Flat Casket''))),
               (''domeCaskets'',
                  z_array (dome_item baseQuantity) (Some (1, Some ''Add at least one Dome Casket'')))]"
      unfolding 3 by (simp only: list.set insert_iff simp_thms)
    with ok have "\<exists>i. is_ok (fst ((dome_item baseQuantity) ([] @ [Key arr, Idx i]) it))"
      unfolding schema_Production_Order_def using assms(3,4) by (rule z_object_array_item_ok)
    then show ?thesis
      using dome_item_quantity_ok by blast
  qed
  then show ?thesis
    using baseQuantity_ok_iff by blast
qed

text \<open>
  C7. The two production-order schemas have their own quantity rule. Every line of a record
  that the schema of part\_000 accepts has the quantity 1, and a filled-in order with one flat
  line is accepted by it exactly when that quantity is 1. Every line of a record that the
  schema of Production\_Order.tsx accepts has an integer quantity of at least 1, and a
  filled-in order with one flat line is accepted by it exactly when that quantity is such an
  integer (so 0 and 1.5 are rejected, 2 is accepted).
\<close>

theorem quantity_policies:
  assumes "it \<in> set items" and "get_prop v arr = JArr items"
  shows "(success (safeParse schema_part_000 v)
            \<and> arr \<in> {''flatCaskets'', ''fishCoffins'', ''domeCaskets''}
          \<longrightarrow> get_prop it ''quantity'' = JNum (Fin 1))
    \<and> (success (safeParse schema_Production_Order v)
            \<and> arr \<in> {''coffinFishes'', ''flatCaskets'', ''domeCaskets''}
          \<longrightarrow> (\<exists>n::int. 1 \<le> n \<and> get_prop it ''quantity'' = JNum (Fin (of_int n))))
    \<and> (success (safeParse schema_part_000 (order_part_000 q)) \<longleftrightarrow> q = JNum (Fin 1))
    \<and> (success (safeParse schema_Production_Order
           (order_Production_Order (job_filled (JNum (Fin 2)) (JStr ''Days'')) (flat_line q)))
         \<longleftrightarrow> (\<exists>n::int. 1 \<le> n \<and> q = JNum (Fin (of_int n))))"
proof (intro conjI impI)
  assume "success (safeParse schema_part_000 v)
      \<and> arr \<in> {''flatCaskets'', ''fishCoffins'', ''domeCaskets''}"
  then show "get_prop it ''quantity'' = JNum (Fin 1)"
    using assms part_000_line_quantity by blast
next
  assume "success (safeParse schema_Production_Order v)
      \<and> arr \<in> {''coffinFishes'', ''flatCaskets'', ''domeCaskets''}"
  then show "\<exists>n::int. 1 \<le> n \<and> get_prop it ''quantity'' = JNum (Fin (of_int n))"
    using assms Production_Order_line_quantity by blast
next
  show "success (safeParse schema_part_000 (order_part_000 q)) \<longleftrightarrow> q = JNum (Fin 1)"
  proof
    assume "success (safeParse schema_part_000 (order_part_000 q))"
    then have "get_prop (flat_line q) ''quantity'' = JNum (Fin 1)"
      by (rule part_000_line_quantity[where arr = "''flatCaskets''" and items = "[flat_line q]"])
         (simp_all add: order_part_000_def obj_get_def)
    then show "q = JNum (Fin 1)"
      by (simp add: flat_line_def obj_get_def)
  next
    assume "q = JNum (Fin 1)"
    then show "success (safeParse schema_part_000 (order_part_000 q))"
      by (simp add: safeParse_def order_part_000_ok)
  qed
next
  let ?order = "order_Production_Order (job_filled (JNum (Fin 2)) (JStr ''Days'')) (flat_line q)"
  show "success (safeParse schema_Production_Order ?order)
      \<longleftrightarrow> (\<exists>n::int. 1 \<le> n \<and> q = JNum (Fin (of_int n)))"
  proof
    assume "success (safeParse schema_Production_Order ?order)"
    then have "\<exists>n::int. 1 \<le> n \<and> get_prop (flat_line q) ''quantity'' = JNum (Fin (of_int n))"
      by (rule Production_Order_line_quantity[where arr = "''flatCaskets''" and items = "[flat_line q]"])
         (simp_all add: order_Production_Order_def obj_get_def)
    then show "\<exists>n::int. 1 \<le> n \<and> q = JNum (Fin (of_int n))"
      by (simp add: flat_line_def obj_get_def)
  next
    assume "\<exists>n::int. 1 \<le> n \<and> q = JNum (Fin (of_int n))"
    then obtain n :: int where "1 \<le> n" and "q = JNum (Fin (of_int n))"
      by auto
    then show "success (safeParse schema_Production_Order ?order)"
      by (simp add: safeParse_def order_Production_Order_ok)
  qed
qed

theorem quantity_policies_witness:
  "get_prop (flat_line (JNum (Fin 1))) ''quantity'' = JNum (Fin 1)
   \<and> success (safeParse schema_part_000 (order_part_000 (JNum (Fin 1))))
   \<and> \<not> success (safeParse schema_part_000 (order_part_000 (JNum (Fin 2))))
   \<and> success (safeParse schema_Production_Order
         (order_Production_Order (job_filled (JNum (Fin 2)) (JStr ''Days'')) (flat_line (JNum (Fin 2)))))
   \<and> \<not> success (safeParse schema_Production_Order
         (order_Production_Order (job_filled (JNum (Fin 2)) (JStr ''Days'')) (flat_line (JNum (Fin 0)))))
   \<and> \<not> success (safeParse schema_Production_Order
         (order_Production_Order (job_filled (JNum (Fin 2)) (JStr ''Days''))
            (flat_line (JNum (Fin (3 / 2))))))"
proof -
  have two: "\<exists>n::int. 1 \<le> n \<and> JNum (Fin 2) = JNum (Fin (of_int n))"
    by (rule exI[of _ 2]) simp
  have half: "\<not> (\<exists>n::int. 1 \<le> n \<and> JNum (Fin (3 / 2)) = JNum (Fin (of_int n)))"
  proof
    assume "\<exists>n::int. 1 \<le> n \<and> JNum (Fin (3 / 2)) = JNum (Fin (of_int n))"
    then obtain n :: int where n: "(3 / 2 :: rat) = of_int n"
      by auto
    then have "\<lfloor>3 / 2 :: rat\<rfloor> = \<lfloor>of_int n :: rat\<rfloor>"
      by (simp only:)
    then have "n = 1"
      by (simp add: floor_rat_numeral_div)
    with n show False
      by simp
  qed
  have mem: "flat_line (JNum (Fin 1)) \<in> set [flat_line (JNum (Fin 1))]"
    by simp
  have arr: "get_prop (order_part_000 (JNum (Fin 1))) ''flatCaskets'' = JArr [flat_line (JNum (Fin 1))]"
    by (simp add: order_part_000_def obj_get_def)
  show ?thesis
    using quantity_policies[OF mem arr, of "JNum (Fin 1)"]
      quantity_policies[OF mem arr, of "JNum (Fin 2)"]
      quantity_policies[OF mem arr, of "JNum (Fin 0)"]
      quantity_policies[OF mem arr, of "JNum (Fin (3 / 2))"] two half
    by simp
qed

section \<open>Refinements see the submitted values\<close>

lemma str_checks_value:
  "StrTrim \<notin> set cs \<Longrightarrow> ret_value (fst (str_checks cs p s d iss)) = JStr s"
  by (induction cs p s d iss rule: str_checks.induct) (simp_all add: mk_return_def)

lemma preserving_z_string: "StrTrim \<notin> set cs \<Longrightarrow> preserving (z_string ps cs)"
  unfolding preserving_def
proof (intro allI impI)
  fix p x
  assume "StrTrim \<notin> set cs" and "\<not> is_invalid (fst (z_string ps cs p x))"
  then show "ret_value (fst (z_string ps cs p x)) = x"
    by (cases x) (simp_all add: z_string_def str_checks_value)
qed

lemma num_checks_value: "ret_value (fst (num_checks cs p x d iss)) = JNum x"
  by (induction cs p x d iss rule: num_checks.induct) (simp_all add: mk_return_def)

lemma preserving_z_number: "preserving (z_number ps cs)"
  unfolding preserving_def
proof (intro allI impI)
  fix p x
  assume "\<not> is_invalid (fst (z_number ps cs p x))"
  then show "ret_value (fst (z_number ps cs p x)) = x"
    by (cases x) (simp_all add: z_number_def num_checks_value split: if_splits)
qed

lemma preserving_z_enum: "preserving (z_enum vals ps)"
  unfolding preserving_def
proof (intro allI impI)
  fix p x
  assume "\<not> is_invalid (fst (z_enum vals ps p x))"
  then show "ret_value (fst (z_enum vals ps p x)) = x"
    by (cases x) (simp_all add: z_enum_def split: if_splits)
qed

lemma preserving_z_literal: "preserving (z_literal lit)"
  by (simp add: preserving_def z_literal_def)

lemma preserving_z_optional: "preserving s \<Longrightarrow> preserving (z_optional s)"
  by (simp add: preserving_def z_optional_def)

lemma find_Some_mem: "find P xs = Some r \<Longrightarrow> r \<in> set xs"
  by (induction xs) (auto split: if_splits)

lemma preserving_z_union:
  assumes "\<forall>s \<in> set opts. preserving s"
  shows "preserving (z_union opts)"
  unfolding preserving_def
proof (intro allI impI)
  fix p x
  assume ni: "\<not> is_invalid (fst (z_union opts p x))"
  let ?rs = "map (\<lambda>s. s p x) opts"
  from ni obtain r where "r \<in> set ?rs" and r: "z_union opts p x = r"
    by (auto simp: z_union_def Let_def split: option.splits dest: find_Some_mem)
  then obtain s where "s \<in> set opts" and "r = s p x"
    by auto
  with assms ni r show "ret_value (fst (z_union opts p x)) = x"
    by (simp add: preserving_def)
qed

lemma preserving_enumOrEmpty: "preserving (enumOrEmpty vals)"
  unfolding enumOrEmpty_def
  by (rule preserving_z_union) (simp add: preserving_z_enum preserving_z_literal)

lemma preserving_baseQuantity: "preserving baseQuantity"
  by (simp add: baseQuantity_def preserving_z_number)

lemma preserving_optional_string: "preserving (z_optional (z_string no_params []))"
  by (simp add: preserving_z_optional preserving_z_string)

lemma z_object_preserving_get:
  assumes "\<not> is_invalid (fst (z_object shape p v))" and "distinct (map fst shape)"
    and "(k, s) \<in> set shape" and "preserving s"
  shows "get_prop (ret_value (fst (z_object shape p v))) k = get_prop v k"
proof -
  from assms(1,3) have "\<not> is_invalid (fst (s (p @ [Key k]) (get_prop v k)))"
    by (rule z_object_field_not_invalid)
  with assms(4) have "ret_value (fst (s (p @ [Key k]) (get_prop v k))) = get_prop v k"
    by (simp add: preserving_def)
  with z_object_value_get[OF assms(1,2,3)] show ?thesis
    by simp
qed

lemma z_object_all_preserving_get:
  assumes "\<not> is_invalid (fst (z_object shape p v))" and "distinct (map fst shape)"
    and "list_all (\<lambda>ks. preserving (snd ks)) shape" and "k \<in> set (map fst shape)"
  shows "get_prop (ret_value (fst (z_object shape p v))) k = get_prop v k"
proof -
  from assms(4) obtain s where m: "(k, s) \<in> set shape"
    by auto
  with assms(3) have "preserving s"
    by (auto simp: list_all_iff)
  with assms(1,2) m show ?thesis
    by (rule z_object_preserving_get)
qed

lemmas preserving_intros =
  preserving_enumOrEmpty preserving_optional_string preserving_baseQuantity preserving_z_literal
  preserving_z_enum preserving_z_number preserving_z_string

lemma job_fields_get:
  assumes "\<not> is_invalid (fst (job_fields p v))"
    and "k \<in> {''expectedDurationUnit'', ''assignedTo'', ''assignedToOther'', ''requestedBy'',
              ''requestedByOther''}"
  shows "get_prop (ret_value (fst (job_fields p v))) k = get_prop v k"
  using assms unfolding job_fields_def
  by (intro z_object_all_preserving_get) (auto simp: preserving_intros)

lemma coffinFishes_fields_get:
  assumes "\<not> is_invalid (fst (coffinFishes_fields p v))"
    and "k \<in> {''size'', ''sizeOther'', ''color'', ''colorOther''}"
  shows "get_prop (ret_value (fst (coffinFishes_fields p v))) k = get_prop v k"
  using assms unfolding coffinFishes_fields_def
  by (intro z_object_all_preserving_get) (auto simp: preserving_intros)

lemma flat_fields_get:
  assumes "\<not> is_invalid (fst (flat_fields quantity p v))" and "preserving quantity"
    and "k \<in> {''material'', ''tier'', ''size'', ''sizeOther'', ''color'', ''colorOther''}"
  shows "get_prop (ret_value (fst (flat_fields quantity p v))) k = get_prop v k"
  using assms unfolding flat_fields_def
  by (intro z_object_all_preserving_get) (auto simp: preserving_intros)

lemma dome_fields_get:
  assumes "\<not> is_invalid (fst (dome_fields quantity p v))" and "preserving quantity"
    and "k \<in> {''material'', ''size'', ''sizeOther'', ''color'', ''colorOther''}"
  shows "get_prop (ret_value (fst (dome_fields quantity p v))) k = get_prop v k"
  using assms unfolding dome_fields_def
  by (intro z_object_all_preserving_get) (auto simp: preserving_intros)

lemma downtime_fields_get:
  assumes "\<not> is_invalid (fst (downtime_fields p v))"
    and "k \<in> {''reporter'', ''department'', ''departmentOther'', ''reason'', ''reasonOther'',
              ''startDate'', ''startTime'', ''details'', ''immediateAction''}"
  shows "get_prop (ret_value (fst (downtime_fields p v))) k = get_prop v k"
  using assms unfolding downtime_fields_def
  by (intro z_object_all_preserving_get) (auto simp: preserving_intros)

lemma job_schema_ok:
  assumes "is_ok (fst (job_schema p j))"
  shows "selected ''expectedDurationUnit'' j \<and> selected ''assignedTo'' j \<and> selected ''requestedBy'' j
    \<and> other_specified ''assignedTo'' j \<and> other_specified ''requestedBy'' j"
proof -
  from assms have "is_ok (fst (job_fields p j))"
    by (simp add: job_schema_def z_refine_ok_iff)
  then have ni: "\<not> is_invalid (fst (job_fields p j))"
    by (simp add: is_ok_iff)
  from assms show ?thesis
    by (simp add: job_schema_def z_refine_ok_iff z_refine_value selected_def other_specified_def
        job_fields_get[OF ni])
qed

lemma job_schema_issues:
  assumes "\<not> is_invalid (fst (job_fields p j))"
  shows "snd (job_schema p j) = snd (job_fields p j)
    @ (if selected ''expectedDurationUnit'' j then []
       else [Issue (p @ [Key ''expectedDurationUnit'']) custom (Some ''Please select a duration unit.'')])
    @ (if selected ''assignedTo'' j then []
       else [Issue (p @ [Key ''assignedTo'']) custom (Some ''Please select the assignee team.'')])
    @ (if selected ''requestedBy'' j then []
       else [Issue (p @ [Key ''requestedBy'']) custom (Some ''Please select who requested.'')])
    @ (if other_specified ''assignedTo'' j then []
       else [Issue (p @ [Key ''assignedToOther'']) custom (Some ''Please specify who it's assigned to.'')])
    @ (if other_specified ''requestedBy'' j then []
       else [Issue (p @ [Key ''requestedByOther'']) custom (Some ''Please specify who requested.'')])"
  using assms
  by (simp add: job_schema_def z_refine_issues z_refine_invalid_iff z_refine_value selected_def
      other_specified_def job_fields_get[OF assms])

lemma coffinFishes_item_ok:
  assumes "is_ok (fst (coffinFishes_item p v))"
  shows "selected ''size'' v \<and> selected ''color'' v
    \<and> other_specified ''size'' v \<and> other_specified ''color'' v"
proof -
  from assms have "is_ok (fst (coffinFishes_fields p v))"
    by (simp add: coffinFishes_item_def z_refine_ok_iff)
  then have ni: "\<not> is_invalid (fst (coffinFishes_fields p v))"
    by (simp add: is_ok_iff)
  from assms show ?thesis
    by (simp add: coffinFishes_item_def z_refine_ok_iff z_refine_value selected_def
        other_specified_def coffinFishes_fields_get[OF ni])
qed

lemma coffinFishes_item_issues:
  assumes "\<not> is_invalid (fst (coffinFishes_fields p v))"
  shows "snd (coffinFishes_item p v) = snd (coffinFishes_fields p v)
    @ (if selected ''size'' v then []
       else [Issue (p @ [Key ''size'']) custom (Some ''Please select a size.'')])
    @ (if selected ''color'' v then []
       else [Issue (p @ [Key ''color'']) custom (Some ''Please select a color.'')])
    @ (if other_specified ''size'' v then []
       else [Issue (p @ [Key ''sizeOther'']) custom (Some ''Please specify the size.'')])
    @ (if other_specified ''color'' v then []
       else [Issue (p @ [Key ''colorOther'']) custom (Some ''Please specify the color.'')])"
  using assms
  by (simp add: coffinFishes_item_def z_refine_issues z_refine_invalid_iff z_refine_value
      selected_def other_specified_def coffinFishes_fields_get[OF assms])

lemma flat_item_ok:
  assumes "is_ok (fst (flat_item quantity p v))" and "preserving quantity"
  shows "selected ''material'' v \<and> selected ''tier'' v \<and> selected ''size'' v \<and> selected ''color'' v
    \<and> other_specified ''size'' v \<and> other_specified ''color'' v"
proof -
  from assms have "is_ok (fst (flat_fields quantity p v))"
    by (simp add: flat_item_def z_refine_ok_iff)
  then have ni: "\<not> is_invalid (fst (flat_fields quantity p v))"
    by (simp add: is_ok_iff)
  from assms(1) show ?thesis
    by (simp add: flat_item_def z_refine_ok_iff z_refine_value selected_def
        other_specified_def flat_fields_get[OF ni assms(2)])
qed

lemma flat_item_issues:
  assumes "\<not> is_invalid (fst (flat_fields quantity p v))" and "preserving quantity"
  shows "snd (flat_item quantity p v) = snd (flat_fields quantity p v)
    @ (if selected ''material'' v then []
       else [Issue (p @ [Key ''material'']) custom (Some ''Please select material.'')])
    @ (if selected ''tier'' v then []
       else [Issue (p @ [Key ''tier'']) custom (Some ''Please select tier.'')])
    @ (if selected ''size'' v then []
       else [Issue (p @ [Key ''size'']) custom (Some ''Please select size.'')])
    @ (if selected ''color'' v then []
       else [Issue (p @ [Key ''color'']) custom (Some ''Please select color.'')])
    @ (if other_specified ''size'' v then []
       else [Issue (p @ [Key ''sizeOther'']) custom (Some ''Please specify the size.'')])
    @ (if other_specified ''color'' v then []
       else [Issue (p @ [Key ''colorOther'']) custom (Some ''Please specify the color.'')])"
  using assms(1)
  by (simp add: flat_item_def z_refine_issues z_refine_invalid_iff z_refine_value
      selected_def other_specified_def flat_fields_get[OF assms])

lemma dome_item_ok:
  assumes "is_ok (fst (dome_item quantity p v))" and "preserving quantity"
  shows "selected ''material'' v \<and> selected ''size'' v \<and> selected ''color'' v
    \<and> other_specified ''size'' v \<and> other_specified ''color'' v"
proof -
  from assms have "is_ok (fst (dome_fields quantity p v))"
    by (simp add: dome_item_def z_refine_ok_iff)
  then have ni: "\<not> is_invalid (fst (dome_fields quantity p v))"
    by (simp add: is_ok_iff)
  from assms(1) show ?thesis
    by (simp add: dome_item_def z_refine_ok_iff z_refine_value selected_def
        other_specified_def dome_fields_get[OF ni assms(2)])
qed

lemma dome_item_issues:
  assumes "\<not> is_invalid (fst (dome_fields quantity p v))" and "preserving quantity"
  shows "snd (dome_item quantity p v) = snd (dome_fields quantity p v)
    @ (if selected ''material'' v then []
       else [Issue (p @ [Key ''material'']) custom (Some ''Please select material.'')])
    @ (if selected ''size'' v then []
       else [Issue (p @ [Key ''size'']) custom (Some ''Please select size.'')])
    @ (if selected ''color'' v then []
       else [Issue (p @ [Key ''color'']) custom (Some ''Please select color.'')])
    @ (if other_specified ''size'' v then []
       else [Issue (p @ [Key ''sizeOther'']) custom (Some ''Please specify the size.'')])
    @ (if other_specified ''color'' v then []
       else [Issue (p @ [Key ''colorOther'']) custom (Some ''Please specify the color.'')])"
  using assms(1)
  by (simp add: dome_item_def z_refine_issues z_refine_invalid_iff z_refine_value
      selected_def other_specified_def dome_fields_get[OF assms])

lemma downtime_ok:
  assumes "is_ok (fst (FormSchema_Downtime parse p v))"
  shows "is_ok (fst (downtime_fields p v)) \<and> downtime_refinement parse v = []"
proof -
  from assms have ok: "is_ok (fst (downtime_fields p v))"
    by (simp add: FormSchema_Downtime_def z_superRefine_ok_iff)
  then have ni: "\<not> is_invalid (fst (downtime_fields p v))"
    by (simp add: is_ok_iff)
  have "downtime_refinement parse (ret_value (fst (downtime_fields p v))) = downtime_refinement parse v"
    by (simp add: downtime_refinement_def downtime_fields_get[OF ni])
  with assms ok show ?thesis
    by (simp add: FormSchema_Downtime_def z_superRefine_ok_iff)
qed

lemma z_object_issue_in:
  assumes "(k, s) \<in> set shape" and "get_prop v k \<noteq> Undefined"
    and "iss \<in> set (snd (s (p @ [Key k]) (get_prop v k)))"
  shows "iss \<in> set (snd (z_object shape p v))"
proof (cases v)
  case (JObj kvs)
  with assms(3) z_object_field_issues[OF assms(1), of p kvs] show ?thesis
    by auto
qed (use assms(2) in simp_all)

lemma z_object_array_issue_in:
  assumes "(arr, z_array elem ml) \<in> set shape" and "get_prop v arr = JArr items"
    and "i < length items" and "iss \<in> set (snd (elem (p @ [Key arr, Idx i]) (items ! i)))"
  shows "iss \<in> set (snd (z_object shape p v))"
proof -
  have "iss \<in> set (snd (z_array elem ml (p @ [Key arr]) (JArr items)))"
    using z_array_elem_issues[OF assms(3), of elem "p @ [Key arr]" ml] assms(4) by auto
  with assms(1,2) show ?thesis
    by (intro z_object_issue_in[where k = arr and s = "z_array elem ml"]) simp_all
qed

lemma z_object_array_index_ok:
  assumes "is_ok (fst (z_object shape p v))" and "(arr, z_array elem ml) \<in> set shape"
    and "get_prop v arr = JArr items" and "i < length items"
  shows "is_ok (fst (elem (p @ [Key arr, Idx i]) (items ! i)))"
proof -
  from assms(1,2) have "is_ok (fst (z_array elem ml (p @ [Key arr]) (get_prop v arr)))"
    by (rule z_object_field_ok)
  with assms(3,4) have "is_ok (fst (elem ((p @ [Key arr]) @ [Idx i]) (items ! i)))"
    using z_array_ok_elem by metis
  then show ?thesis by simp
qed

text \<open>Membership of each field in the shape of the two top-level schemas.\<close>

lemma Production_Order_shape:
  "is_ok (fst (schema_Production_Order [] v)) \<Longrightarrow> is_ok (fst (job_schema [Key ''job''] (get_prop v ''job'')))"
  "is_ok (fst (schema_Production_Order [] v)) \<Longrightarrow> get_prop v ''coffinFishes'' = JArr items \<Longrightarrow>
     i < length items \<Longrightarrow> is_ok (fst (coffinFishes_item [Key ''coffinFishes'', Idx i] (items ! i)))"
  "is_ok (fst (schema_Production_Order [] v)) \<Longrightarrow> get_prop v ''flatCaskets'' = JArr items \<Longrightarrow>
     i < length items \<Longrightarrow> is_ok (fst (flat_item baseQuantity [Key ''flatCaskets'', Idx i] (items ! i)))"
  "is_ok (fst (schema_Production_Order [] v)) \<Longrightarrow> get_prop v ''domeCaskets'' = JArr items \<Longrightarrow>
     i < length items \<Longrightarrow> is_ok (fst (dome_item baseQuantity [Key ''domeCaskets'', Idx i] (items ! i)))"
  unfolding schema_Production_Order_def
  using z_object_field_ok[where p = "[]" and k = "''job''" and s = job_schema]
    z_object_array_index_ok[where p = "[]" and arr = "''coffinFishes''" and elem = coffinFishes_item]
    z_object_array_index_ok[where p = "[]" and arr = "''flatCaskets''" and elem = "flat_item baseQuantity"]
    z_object_array_index_ok[where p = "[]" and arr = "''domeCaskets''" and elem = "dome_item baseQuantity"]
  by simp_all

lemma Production_Order_issue_in:
  "get_prop v ''job'' \<noteq> Undefined \<Longrightarrow> iss \<in> set (snd (job_schema [Key ''job''] (get_prop v ''job'')))
     \<Longrightarrow> iss \<in> set (snd (schema_Production_Order [] v))"
  "get_prop v ''coffinFishes'' = JArr items \<Longrightarrow> i < length items \<Longrightarrow>
     iss \<in> set (snd (coffinFishes_item [Key ''coffinFishes'', Idx i] (items ! i)))
     \<Longrightarrow> iss \<in> set (snd (schema_Production_Order [] v))"
  "get_prop v ''flatCaskets'' = JArr items \<Longrightarrow> i < length items \<Longrightarrow>
     iss \<in> set (snd (flat_item baseQuantity [Key ''flatCaskets'', Idx i] (items ! i)))
     \<Longrightarrow> iss \<in> set (snd (schema_Production_Order [] v))"
  "get_prop v ''domeCaskets'' = JArr items \<Longrightarrow> i < length items \<Longrightarrow>
     iss \<in> set (snd (dome_item baseQuantity [Key ''domeCaskets'', Idx i] (items ! i)))
     \<Longrightarrow> iss \<in> set (snd (schema_Production_Order [] v))"
  unfolding schema_Production_Order_def
  using z_object_issue_in[where p = "[]" and k = "''job''" and s = job_schema]
    z_object_array_issue_in[where p = "[]" and arr = "''coffinFishes''" and elem = coffinFishes_item]
    z_object_array_issue_in[where p = "[]" and arr = "''flatCaskets''" and elem = "flat_item baseQuantity"]
    z_object_array_issue_in[where p = "[]" and arr = "''domeCaskets''" and elem = "dome_item baseQuantity"]
  by simp_all

lemma part_000_shape:
  "is_ok (fst (schema_part_000 [] v)) \<Longrightarrow> get_prop v ''flatCaskets'' = JArr items \<Longrightarrow>
     i < length items \<Longrightarrow> is_ok (fst (flat_item (z_literal (JNum (Fin 1))) [Key ''flatCaskets'', Idx i] (items ! i)))"
  "is_ok (fst (schema_part_000 [] v)) \<Longrightarrow> get_prop v ''fishCoffins'' = JArr items \<Longrightarrow>
     i < length items \<Longrightarrow> is_ok (fst (flat_item (z_literal (JNum (Fin 1))) [Key ''fishCoffins'', Idx i] (items ! i)))"
  "is_ok (fst (schema_part_000 [] v)) \<Longrightarrow> get_prop v ''domeCaskets'' = JArr items \<Longrightarrow>
     i < length items \<Longrightarrow> is_ok (fst (dome_item (z_literal (JNum (Fin 1))) [Key ''domeCaskets'', Idx i] (items ! i)))"
  unfolding schema_part_000_def
  using z_object_array_index_ok[where p = "[]" and arr = "''flatCaskets''" and elem = "flat_item (z_literal (JNum (Fin 1)))"]
    z_object_array_index_ok[where p = "[]" and arr = "''fishCoffins''" and elem = "flat_item (z_literal (JNum (Fin 1)))"]
    z_object_array_index_ok[where p = "[]" and arr = "''domeCaskets''" and elem = "dome_item (z_literal (JNum (Fin 1)))"]
  by simp_all

section \<open>The "Other" option and its companion field\<close>

lemma not_other_specified:
  "get_prop x f = JStr ''Other'' \<Longrightarrow> \<not> truthy (opt_trim (get_prop x (f @ ''Other'')))
     \<Longrightarrow> \<not> other_specified f x"
  by (simp add: other_specified_def)

lemma not_selected: "get_prop x f = JStr [] \<Longrightarrow> \<not> selected f x"
  by (simp add: selected_def)

lemma Production_Order_job_other:
  assumes "\<not> other_specified f (get_prop v ''job'')" and "f \<in> {''assignedTo'', ''requestedBy''}"
  shows "\<not> success (safeParse schema_Production_Order v)"
proof
  assume "success (safeParse schema_Production_Order v)"
  then have "is_ok (fst (job_schema [Key ''job''] (get_prop v ''job'')))"
    by (simp add: safeParse_success Production_Order_shape(1))
  from job_schema_ok[OF this] assms show False
    by auto
qed

lemma Production_Order_line_other:
  assumes "\<not> other_specified f x" and "f \<in> {''size'', ''color''}"
    and "arr \<in> {''coffinFishes'', ''flatCaskets'', ''domeCaskets''}"
    and "get_prop v arr = JArr items" and "x \<in> set items"
  shows "\<not> success (safeParse schema_Production_Order v)"
proof
  assume "success (safeParse schema_Production_Order v)"
  then have ok: "is_ok (fst (schema_Production_Order [] v))"
    by (simp add: safeParse_success)
  from assms(5) obtain i where i: "i < length items" and x: "items ! i = x"
    by (auto simp: in_set_conv_nth)
  from assms(3) consider "arr = ''coffinFishes''" | "arr = ''flatCaskets''" | "arr = ''domeCaskets''"
    by blast
  then have "other_specified ''size'' x \<and> other_specified ''color'' x"
  proof cases
    case 1
    with ok assms(4) i x have "is_ok (fst (coffinFishes_item [Key ''coffinFishes'', Idx i] x))"
      using Production_Order_shape(2) by blast
    from coffinFishes_item_ok[OF this] show ?thesis by simp
  next
    case 2
    with ok assms(4) i x have "is_ok (fst (flat_item baseQuantity [Key ''flatCaskets'', Idx i] x))"
      using Production_Order_shape(3) by blast
    from flat_item_ok[OF this preserving_baseQuantity] show ?thesis by simp
  next
    case 3
    with ok assms(4) i x have "is_ok (fst (dome_item baseQuantity [Key ''domeCaskets'', Idx i] x))"
      using Production_Order_shape(4) by blast
    from dome_item_ok[OF this preserving_baseQuantity] show ?thesis by simp
  qed
  with assms(1,2) show False
    by auto
qed

lemma part_000_line_other:
  assumes "\<not> other_specified f x" and "f \<in> {''size'', ''color''}"
    and "arr \<in> {''flatCaskets'', ''fishCoffins'', ''domeCaskets''}"
    and "get_prop v arr = JArr items" and "x \<in> set items"
  shows "\<not> success (safeParse schema_part_000 v)"
proof
  assume "success (safeParse schema_part_000 v)"
  then have ok: "is_ok (fst (schema_part_000 [] v))"
    by (simp add: safeParse_success)
  from assms(5) obtain i where i: "i < length items" and x: "items ! i = x"
    by (auto simp: in_set_conv_nth)
  from assms(3) consider "arr = ''flatCaskets''" | "arr = ''fishCoffins''" | "arr = ''domeCaskets''"
    by blast
  then have "other_specified ''size'' x \<and> other_specified ''color'' x"
  proof cases
    case 1
    with ok assms(4) i x
    have "is_ok (fst (flat_item (z_literal (JNum (Fin 1))) [Key ''flatCaskets'', Idx i] x))"
      using part_000_shape(1) by blast
    from flat_item_ok[OF this preserving_z_literal] show ?thesis by simp
  next
    case 2
    with ok assms(4) i x
    have "is_ok (fst (flat_item (z_literal (JNum (Fin 1))) [Key ''fishCoffins'', Idx i] x))"
      using part_000_shape(2) by blast
    from flat_item_ok[OF this preserving_z_literal] show ?thesis by simp
  next
    case 3
    with ok assms(4) i x
    have "is_ok (fst (dome_item (z_literal (JNum (Fin 1))) [Key ''domeCaskets'', Idx i] x))"
      using part_000_shape(3) by blast
    from dome_item_ok[OF this preserving_z_literal] show ?thesis by simp
  qed
  with assms(1,2) show False
    by auto
qed

lemma Downtime_other:
  assumes "\<not> other_specified f x" and "f \<in> {''department'', ''reason''}"
  shows "\<not> success (safeParse (FormSchema_Downtime parse) x)"
proof
  assume "success (safeParse (FormSchema_Downtime parse) x)"
  then have "downtime_refinement parse x = []"
    by (simp add: safeParse_success downtime_ok)
  with assms show False
    by (auto simp: downtime_refinement_def other_specified_def split: if_splits)
qed

lemma casket_other_accepted: "success (safeParse (schema_CasketForm unconverted) casket_other)"
  by (simp add: safeParse_def schema_CasketForm_def casket_other_def zod_defs)

text \<open>
  C1, as stated, fails for the casket form: its schema declares the four companion fields
  optional and has no refinement, so a casket whose type, material, colour and interior finish
  are all "Other" with empty companions is accepted.
\<close>

theorem casket_other_unchecked:
  "success (safeParse (schema_CasketForm unconverted) casket_other)
   \<and> get_prop casket_other ''type'' = JStr ''Other''
   \<and> get_prop casket_other ''typeOther'' = JStr []"
  using casket_other_accepted by (simp add: casket_other_def obj_get_def)

text \<open>
  C1, amended. Let \<open>x\<close> be an object whose field \<open>f\<close> is "Other" while its field \<open>fOther\<close> is
  missing, empty or white space only. Then validation rejects the record: for the job of a
  production order (\<open>assignedTo\<close>, \<open>requestedBy\<close>), for a line of any of the three arrays of a
  production order, in Production\_Order.tsx and in part\_000 (\<open>size\<close>, \<open>color\<close>), and for a
  downtime record (\<open>department\<close>, \<open>reason\<close>), whatever the other fields hold. (The casket form
  has no such rule.)
\<close>

theorem other_requires_companion:
  assumes "get_prop x f = JStr ''Other''"
    and "\<not> truthy (opt_trim (get_prop x (f @ ''Other'')))"
  shows "(get_prop v ''job'' = x \<and> f \<in> {''assignedTo'', ''requestedBy''}
          \<longrightarrow> \<not> success (safeParse schema_Production_Order v))
    \<and> (arr \<in> {''coffinFishes'', ''flatCaskets'', ''domeCaskets''}
          \<and> get_prop v arr = JArr items \<and> x \<in> set items \<and> f \<in> {''size'', ''color''}
          \<longrightarrow> \<not> success (safeParse schema_Production_Order v))
    \<and> (arr \<in> {''flatCaskets'', ''fishCoffins'', ''domeCaskets''}
          \<and> get_prop v arr = JArr items \<and> x \<in> set items \<and> f \<in> {''size'', ''color''}
          \<longrightarrow> \<not> success (safeParse schema_part_000 v))
    \<and> (f \<in> {''department'', ''reason''}
          \<longrightarrow> \<not> success (safeParse (FormSchema_Downtime parse) x))"
proof -
  have n: "\<not> other_specified f x"
    using assms by (rule not_other_specified)
  show ?thesis
  proof (intro conjI impI)
    assume "get_prop v ''job'' = x \<and> f \<in> {''assignedTo'', ''requestedBy''}"
    with n show "\<not> success (safeParse schema_Production_Order v)"
      using Production_Order_job_other[of f v] by simp
  next
    assume "arr \<in> {''coffinFishes'', ''flatCaskets'', ''domeCaskets''}
        \<and> get_prop v arr = JArr items \<and> x \<in> set items \<and> f \<in> {''size'', ''color''}"
    with n show "\<not> success (safeParse schema_Production_Order v)"
      using Production_Order_line_other[of f x arr v items] by simp
  next
    assume "arr \<in> {''flatCaskets'', ''fishCoffins'', ''domeCaskets''}
        \<and> get_prop v arr = JArr items \<and> x \<in> set items \<and> f \<in> {''size'', ''color''}"
    with n show "\<not> success (safeParse schema_part_000 v)"
      using part_000_line_other[of f x arr v items] by simp
  next
    assume "f \<in> {''department'', ''reason''}"
    with n show "\<not> success (safeParse (FormSchema_Downtime parse) x)"
      by (rule Downtime_other)
  qed
qed

theorem other_requires_companion_witness:
  "\<not> success (safeParse schema_Production_Order
       (order_Production_Order
          (JObj [(''expectedStartDate'', JStr ''2025-01-01''), (''expectedStartTime'', JStr ''08:00''),
                 (''expectedDurationValue'', JNum (Fin 2)), (''expectedDurationUnit'', JStr ''Days''),
                 (''assignedTo'', JStr ''Other''), (''assignedToOther'', JStr ''  ''),
                 (''requestedBy'', JStr ''Manager'')])
          (flat_line (JNum (Fin 1)))))
   \<and> \<not> success (safeParse (FormSchema_Downtime parse_2025)
       (JObj [(''reporter'', JStr ''Tendai''), (''department'', JStr ''Other''),
              (''reason'', JStr ''Maintenance''), (''startDate'', JStr ''2025-01-01''),
              (''startTime'', JStr ''08:00'')]))"
proof -
  let ?job = "JObj [(''expectedStartDate'', JStr ''2025-01-01''), (''expectedStartTime'', JStr ''08:00''),
                 (''expectedDurationValue'', JNum (Fin 2)), (''expectedDurationUnit'', JStr ''Days''),
                 (''assignedTo'', JStr ''Other''), (''assignedToOther'', JStr ''  ''),
                 (''requestedBy'', JStr ''Manager'')]"
  let ?down = "JObj [(''reporter'', JStr ''Tendai''), (''department'', JStr ''Other''),
              (''reason'', JStr ''Maintenance''), (''startDate'', JStr ''2025-01-01''),
              (''startTime'', JStr ''08:00'')]"
  have 1: "get_prop ?job ''assignedTo'' = JStr ''Other''"
    and 2: "\<not> truthy (opt_trim (get_prop ?job (''assignedTo'' @ ''Other'')))"
    by (simp_all add: obj_get_def trim_def is_js_space_def)
  have 3: "get_prop ?down ''department'' = JStr ''Other''"
    and 4: "\<not> truthy (opt_trim (get_prop ?down (''department'' @ ''Other'')))"
    by (simp_all add: obj_get_def)
  show ?thesis
    using other_requires_companion[OF 1 2,
        of "order_Production_Order ?job (flat_line (JNum (Fin 1)))"]
      other_requires_companion[OF 3 4, of _ _ _ parse_2025]
    by (simp add: order_Production_Order_def obj_get_def)
qed

section \<open>Production order: a required choice left empty\<close>

lemma rejected_issues:
  "\<not> success (safeParse s v) \<Longrightarrow> issues (safeParse s v) = snd (s [] v)"
  by (simp add: safeParse_success safeParse_issues)

lemma Production_Order_job_empty:
  assumes "get_prop v ''job'' = x" and "get_prop x f = JStr []"
    and "f \<in> {''expectedDurationUnit'', ''assignedTo'', ''requestedBy''}"
  shows "\<not> success (safeParse schema_Production_Order v)"
    and "\<not> is_invalid (fst (job_fields [Key ''job''] x)) \<Longrightarrow>
      Issue [Key ''job'', Key f] custom (Some (select_message ''job'' f))
        \<in> set (issues (safeParse schema_Production_Order v))"
proof -
  have ns: "\<not> selected f x"
    using assms(2) by (rule not_selected)
  show rej: "\<not> success (safeParse schema_Production_Order v)"
  proof
    assume "success (safeParse schema_Production_Order v)"
    then have "is_ok (fst (job_schema [Key ''job''] (get_prop v ''job'')))"
      by (simp add: safeParse_success Production_Order_shape(1))
    from job_schema_ok[OF this] ns assms(1,3) show False
      by auto
  qed
  assume ni: "\<not> is_invalid (fst (job_fields [Key ''job''] x))"
  have "Issue [Key ''job'', Key f] custom (Some (select_message ''job'' f))
      \<in> set (snd (job_schema [Key ''job''] x))"
    using ns assms(3) by (auto simp: job_schema_issues[OF ni] select_message_def)
  moreover have "get_prop v ''job'' \<noteq> Undefined"
    using assms(1,2) by auto
  ultimately have "Issue [Key ''job'', Key f] custom (Some (select_message ''job'' f))
      \<in> set (snd (schema_Production_Order [] v))"
    using assms(1) Production_Order_issue_in(1) by blast
  then show "Issue [Key ''job'', Key f] custom (Some (select_message ''job'' f))
      \<in> set (issues (safeParse schema_Production_Order v))"
    by (simp add: rejected_issues[OF rej])
qed

lemma Production_Order_coffinFishes_empty:
  assumes "get_prop v ''coffinFishes'' = JArr items" and "i < length items" and "items ! i = x"
    and "get_prop x f = JStr []" and "f \<in> {''size'', ''color''}"
  shows "\<not> success (safeParse schema_Production_Order v)"
    and "\<not> is_invalid (fst (coffinFishes_fields [Key ''coffinFishes'', Idx i] x)) \<Longrightarrow>
      Issue [Key ''coffinFishes'', Idx i, Key f] custom (Some (select_message ''coffinFishes'' f))
        \<in> set (issues (safeParse schema_Production_Order v))"
proof -
  have ns: "\<not> selected f x"
    using assms(4) by (rule not_selected)
  show rej: "\<not> success (safeParse schema_Production_Order v)"
  proof
    assume "success (safeParse schema_Production_Order v)"
    then have "is_ok (fst (coffinFishes_item [Key ''coffinFishes'', Idx i] x))"
      using assms(1,2,3) Production_Order_shape(2) by (auto simp: safeParse_success)
    from coffinFishes_item_ok[OF this] ns assms(5) show False
      by auto
  qed
  assume ni: "\<not> is_invalid (fst (coffinFishes_fields [Key ''coffinFishes'', Idx i] x))"
  have "Issue [Key ''coffinFishes'', Idx i, Key f] custom (Some (select_message ''coffinFishes'' f))
      \<in> set (snd (coffinFishes_item [Key ''coffinFishes'', Idx i] x))"
    using ns assms(5) by (auto simp: coffinFishes_item_issues[OF ni] select_message_def)
  then have "Issue [Key ''coffinFishes'', Idx i, Key f] custom (Some (select_message ''coffinFishes'' f))
      \<in> set (snd (schema_Production_Order [] v))"
    using assms(1,2,3) Production_Order_issue_in(2) by blast
  then show "Issue [Key ''coffinFishes'', Idx i, Key f] custom (Some (select_message ''coffinFishes'' f))
      \<in> set (issues (safeParse schema_Production_Order v))"
    by (simp add: rejected_issues[OF rej])
qed

lemma Production_Order_flatCaskets_empty:
  assumes "get_prop v ''flatCaskets'' = JArr items" and "i < length items" and "items ! i = x"
    and "get_prop x f = JStr []" and "f \<in> {''material'', ''tier'', ''size'', ''color''}"
  shows "\<not> success (safeParse schema_Production_Order v)"
    and "\<not> is_invalid (fst (flat_fields baseQuantity [Key ''flatCaskets'', Idx i] x)) \<Longrightarrow>
      Issue [Key ''flatCaskets'', Idx i, Key f] custom (Some (select_message ''flatCaskets'' f))
        \<in> set (issues (safeParse schema_Production_Order v))"
proof -
  have ns: "\<not> selected f x"
    using assms(4) by (rule not_selected)
  show rej: "\<not> success (safeParse schema_Production_Order v)"
  proof
    assume "success (safeParse schema_Production_Order v)"
    then have "is_ok (fst (flat_item baseQuantity [Key ''flatCaskets'', Idx i] x))"
      using assms(1,2,3) Production_Order_shape(3) by (auto simp: safeParse_success)
    from flat_item_ok[OF this preserving_baseQuantity] ns assms(5) show False
      by auto
  qed
  assume ni: "\<not> is_invalid (fst (flat_fields baseQuantity [Key ''flatCaskets'', Idx i] x))"
  have "Issue [Key ''flatCaskets'', Idx i, Key f] custom (Some (select_message ''flatCaskets'' f))
      \<in> set (snd (flat_item baseQuantity [Key ''flatCaskets'', Idx i] x))"
    using ns assms(5)
    by (auto simp: flat_item_issues[OF ni preserving_baseQuantity] select_message_def)
  then have "Issue [Key ''flatCaskets'', Idx i, Key f] custom (Some (select_message ''flatCaskets'' f))
      \<in> set (snd (schema_Production_Order [] v))"
    using assms(1,2,3) Production_Order_issue_in(3) by blast
  then show "Issue [Key ''flatCaskets'', Idx i, Key f] custom (Some (select_message ''flatCaskets'' f))
      \<in> set (issues (safeParse schema_Production_Order v))"
    by (simp add: rejected_issues[OF rej])
qed

lemma Production_Order_domeCaskets_empty:
  assumes "get_prop v ''domeCaskets'' = JArr items" and "i < length items" and "items ! i = x"
    and "get_prop x f = JStr []" and "f \<in> {''material'', ''size'', ''color''}"
  shows "\<not> success (safeParse schema_Production_Order v)"
    and "\<not> is_invalid (fst (dome_fields baseQuantity [Key ''domeCaskets'', Idx i] x)) \<Longrightarrow>
      Issue [Key ''domeCaskets'', Idx i, Key f] custom (Some (select_message ''domeCaskets'' f))
        \<in> set (issues (safeParse schema_Production_Order v))"
proof -
  have ns: "\<not> selected f x"
    using assms(4) by (rule not_selected)
  show rej: "\<not> success (safeParse schema_Production_Order v)"
  proof
    assume "success (safeParse schema_Production_Order v)"
    then have "is_ok (fst (dome_item baseQuantity [Key ''domeCaskets'', Idx i] x))"
      using assms(1,2,3) Production_Order_shape(4) by (auto simp: safeParse_success)
    from dome_item_ok[OF this preserving_baseQuantity] ns assms(5) show False
      by auto
  qed
  assume ni: "\<not> is_invalid (fst (dome_fields baseQuantity [Key ''domeCaskets'', Idx i] x))"
  have "Issue [Key ''domeCaskets'', Idx i, Key f] custom (Some (select_message ''domeCaskets'' f))
      \<in> set (snd (dome_item baseQuantity [Key ''domeCaskets'', Idx i] x))"
    using ns assms(5)
    by (auto simp: dome_item_issues[OF ni preserving_baseQuantity] select_message_def)
  then have "Issue [Key ''domeCaskets'', Idx i, Key f] custom (Some (select_message ''domeCaskets'' f))
      \<in> set (snd (schema_Production_Order [] v))"
    using assms(1,2,3) Production_Order_issue_in(4) by blast
  then show "Issue [Key ''domeCaskets'', Idx i, Key f] custom (Some (select_message ''domeCaskets'' f))
      \<in> set (issues (safeParse schema_Production_Order v))"
    by (simp add: rejected_issues[OF rej])
qed

lemma job_NaN: "job_schema p (job_filled (JNum NaN) (JStr []))
    = (INVALID, [Issue (p @ [Key ''expectedDurationValue'']) invalid_type (Some ''Duration must be a number'')])"
  by (simp add: record_defs schema_defs zod_defs)

lemma order_NaN_issues:
  "safeParse schema_Production_Order
      (order_Production_Order (job_filled (JNum NaN) (JStr [])) (flat_line (JNum (Fin 1))))
   = Failure [Issue [Key ''job'', Key ''expectedDurationValue''] invalid_type
                (Some ''Duration must be a number'')]"
  using flat_line_base[of 1]
  by (simp add: safeParse_def schema_Production_Order_def order_Production_Order_def z_object_def
      z_array_single fish_line_ok dome_line_ok job_NaN
      merge_status_def mk_return_def object_out_def obj_get_def)

text \<open>
  C4, as stated, fails: a refinement runs only when the object it refines has parsed without
  aborting. With the duration left as NaN (what an empty number input yields) and no duration
  unit chosen, the job object aborts on the duration, and the only issue of the whole record
  is the one of the duration; none is positioned at \<open>job.expectedDurationUnit\<close>.
\<close>

theorem empty_unit_unreported:
  "get_prop (job_filled (JNum NaN) (JStr [])) ''expectedDurationUnit'' = JStr []
   \<and> safeParse schema_Production_Order
        (order_Production_Order (job_filled (JNum NaN) (JStr [])) (flat_line (JNum (Fin 1))))
     = Failure [Issue [Key ''job'', Key ''expectedDurationValue''] invalid_type
                  (Some ''Duration must be a number'')]"
  using order_NaN_issues by (simp add: job_filled_def obj_get_def)

text \<open>
  C4, amended. Let the field \<open>f\<close> of \<open>x\<close> be the empty string, where \<open>x\<close> is the job of a
  production order and \<open>f\<close> one of \<open>expectedDurationUnit\<close>, \<open>assignedTo\<close>, \<open>requestedBy\<close>, or \<open>x\<close>
  is the line at index \<open>i\<close> of \<open>coffinFishes\<close> (\<open>size\<close>, \<open>color\<close>), \<open>flatCaskets\<close> (\<open>material\<close>,
  \<open>tier\<close>, \<open>size\<close>, \<open>color\<close>) or \<open>domeCaskets\<close> (\<open>material\<close>, \<open>size\<close>, \<open>color\<close>). Then the record
  is rejected; and when the fields of \<open>x\<close> itself parse without aborting (each has a value of
  its declared type), the issues include the "Please select" message of that field at
  exactly its path.
\<close>

theorem required_enum_empty:
  assumes "get_prop x f = JStr []"
  shows "(get_prop v ''job'' = x \<and> f \<in> {''expectedDurationUnit'', ''assignedTo'', ''requestedBy''}
          \<longrightarrow> \<not> success (safeParse schema_Production_Order v)
            \<and> (\<not> is_invalid (fst (job_fields [Key ''job''] x))
               \<longrightarrow> Issue [Key ''job'', Key f] custom (Some (select_message ''job'' f))
                     \<in> set (issues (safeParse schema_Production_Order v))))
    \<and> (get_prop v ''coffinFishes'' = JArr items \<and> i < length items \<and> items ! i = x
          \<and> f \<in> {''size'', ''color''}
          \<longrightarrow> \<not> success (safeParse schema_Production_Order v)
            \<and> (\<not> is_invalid (fst (coffinFishes_fields [Key ''coffinFishes'', Idx i] x))
               \<longrightarrow> Issue [Key ''coffinFishes'', Idx i, Key f] custom
                       (Some (select_message ''coffinFishes'' f))
                     \<in> set (issues (safeParse schema_Production_Order v))))
    \<and> (get_prop v ''flatCaskets'' = JArr items \<and> i < length items \<and> items ! i = x
          \<and> f \<in> {''material'', ''tier'', ''size'', ''color''}
          \<longrightarrow> \<not> success (safeParse schema_Production_Order v)
            \<and> (\<not> is_invalid (fst (flat_fields baseQuantity [Key ''flatCaskets'', Idx i] x))
               \<longrightarrow> Issue [Key ''flatCaskets'', Idx i, Key f] custom
                       (Some (select_message ''flatCaskets'' f))
                     \<in> set (issues (safeParse schema_Production_Order v))))
    \<and> (get_prop v ''domeCaskets'' = JArr items \<and> i < length items \<and> items ! i = x
          \<and> f \<in> {''material'', ''size'', ''color''}
          \<longrightarrow> \<not> success (safeParse schema_Production_Order v)
            \<and> (\<not> is_invalid (fst (dome_fields baseQuantity [Key ''domeCaskets'', Idx i] x))
               \<longrightarrow> Issue [Key ''domeCaskets'', Idx i, Key f] custom
                       (Some (select_message ''domeCaskets'' f))
                     \<in> set (issues (safeParse schema_Production_Order v))))"
proof (intro conjI impI)
  assume "get_prop v ''job'' = x \<and> f \<in> {''expectedDurationUnit'', ''assignedTo'', ''requestedBy''}"
  then have h: "get_prop v ''job'' = x" "f \<in> {''expectedDurationUnit'', ''assignedTo'', ''requestedBy''}"
    by simp_all
  show "\<not> success (safeParse schema_Production_Order v)"
    using h(1) assms h(2) by (rule Production_Order_job_empty(1))
  assume "\<not> is_invalid (fst (job_fields [Key ''job''] x))"
  with h(1) assms h(2)
  show "Issue [Key ''job'', Key f] custom (Some (select_message ''job'' f))
      \<in> set (issues (safeParse schema_Production_Order v))"
    by (rule Production_Order_job_empty(2))
next
  assume "get_prop v ''coffinFishes'' = JArr items \<and> i < length items \<and> items ! i = x
      \<and> f \<in> {''size'', ''color''}"
  then have h: "get_prop v ''coffinFishes'' = JArr items" "i < length items" "items ! i = x"
      "f \<in> {''size'', ''color''}"
    by simp_all
  show "\<not> success (safeParse schema_Production_Order v)"
    using h(1,2,3) assms h(4) by (rule Production_Order_coffinFishes_empty(1))
  assume "\<not> is_invalid (fst (coffinFishes_fields [Key ''coffinFishes'', Idx i] x))"
  with h(1,2,3) assms h(4)
  show "Issue [Key ''coffinFishes'', Idx i, Key f] custom (Some (select_message ''coffinFishes'' f))
      \<in> set (issues (safeParse schema_Production_Order v))"
    by (rule Production_Order_coffinFishes_empty(2))
next
  assume "get_prop v ''flatCaskets'' = JArr items \<and> i < length items \<and> items ! i = x
      \<and> f \<in> {''material'', ''tier'', ''size'', ''color''}"
  then have h: "get_prop v ''flatCaskets'' = JArr items" "i < length items" "items ! i = x"
      "f \<in> {''material'', ''tier'', ''size'', ''color''}"
    by simp_all
  show "\<not> success (safeParse schema_Production_Order v)"
    using h(1,2,3) assms h(4) by (rule Production_Order_flatCaskets_empty(1))
  assume "\<not> is_invalid (fst (flat_fields baseQuantity [Key ''flatCaskets'', Idx i] x))"
  with h(1,2,3) assms h(4)
  show "Issue [Key ''flatCaskets'', Idx i, Key f] custom (Some (select_message ''flatCaskets'' f))
      \<in> set (issues (safeParse schema_Production_Order v))"
    by (rule Production_Order_flatCaskets_empty(2))
next
  assume "get_prop v ''domeCaskets'' = JArr items \<and> i < length items \<and> items ! i = x
      \<and> f \<in> {''material'', ''size'', ''color''}"
  then have h: "get_prop v ''domeCaskets'' = JArr items" "i < length items" "items ! i = x"
      "f \<in> {''material'', ''size'', ''color''}"
    by simp_all
  show "\<not> success (safeParse schema_Production_Order v)"
    using h(1,2,3) assms h(4) by (rule Production_Order_domeCaskets_empty(1))
  assume "\<not> is_invalid (fst (dome_fields baseQuantity [Key ''domeCaskets'', Idx i] x))"
  with h(1,2,3) assms h(4)
  show "Issue [Key ''domeCaskets'', Idx i, Key f] custom (Some (select_message ''domeCaskets'' f))
      \<in> set (issues (safeParse schema_Production_Order v))"
    by (rule Production_Order_domeCaskets_empty(2))
qed

theorem required_enum_empty_witness:
  "\<not> success (safeParse schema_Production_Order
       (order_Production_Order (job_filled (JNum (Fin 2)) (JStr [])) (flat_line (JNum (Fin 1)))))
   \<and> Issue [Key ''job'', Key ''expectedDurationUnit''] custom (Some ''Please select a duration unit.'')
       \<in> set (issues (safeParse schema_Production_Order
            (order_Production_Order (job_filled (JNum (Fin 2)) (JStr []))
               (flat_line (JNum (Fin 1))))))
   \<and> Issue [Key ''flatCaskets'', Idx 0, Key ''material''] custom (Some ''Please select material.'')
       \<in> set (issues (safeParse schema_Production_Order
            (order_Production_Order (job_filled (JNum (Fin 2)) (JStr ''Days''))
               (JObj [(''material'', JStr []), (''tier'', JStr ''Flat''), (''size'', JStr ''Adult''),
                      (''color'', JStr ''White''), (''quantity'', JNum (Fin 1))]))))"
proof -
  let ?job = "job_filled (JNum (Fin 2)) (JStr [])"
  let ?line = "JObj [(''material'', JStr []), (''tier'', JStr ''Flat''), (''size'', JStr ''Adult''),
                      (''color'', JStr ''White''), (''quantity'', JNum (Fin 1))]"
  have 1: "get_prop ?job ''expectedDurationUnit'' = JStr []"
    by (simp add: job_filled_def obj_get_def)
  have 2: "\<not> is_invalid (fst (job_fields [Key ''job''] ?job))"
    by (simp add: record_defs schema_defs zod_defs)
  have 3: "get_prop ?line ''material'' = JStr []"
    by (simp add: obj_get_def)
  have 4: "\<not> is_invalid (fst (flat_fields baseQuantity [Key ''flatCaskets'', Idx 0] ?line))"
    by (simp add: schema_defs zod_defs)
  show ?thesis
    using required_enum_empty[OF 1, of "order_Production_Order ?job (flat_line (JNum (Fin 1)))"] 2
      required_enum_empty[OF 3,
        of "order_Production_Order (job_filled (JNum (Fin 2)) (JStr ''Days'')) ?line" "[?line]" 0] 4
    by (simp add: order_Production_Order_def obj_get_def select_message_def)
qed

section \<open>Downtime: the payload of an accepted record\<close>

lemma z_string_ok_str: "is_ok (fst (z_string ps cs p v)) \<Longrightarrow> \<exists>s. v = JStr s"
  by (cases v) (simp_all add: z_string_def)

lemma z_enum_ok_str: "is_ok (fst (z_enum vals ps p v)) \<Longrightarrow> \<exists>s. v = JStr s \<and> s \<in> set vals"
  by (cases v) (simp_all add: z_enum_def split: if_splits)

lemma downtime_field_types:
  assumes "is_ok (fst (downtime_fields p v))"
  shows "\<exists>r d e sd st. get_prop v ''reporter'' = JStr r
    \<and> get_prop v ''department'' = JStr d \<and> d \<in> set departments
    \<and> get_prop v ''reason'' = JStr e \<and> e \<in> set reasons
    \<and> get_prop v ''startDate'' = JStr sd \<and> get_prop v ''startTime'' = JStr st"
proof -
  have "is_ok (fst (z_string no_params [StrMin 2 (Some ''Please enter the reporter's name.'')]
      (p @ [Key ''reporter'']) (get_prop v ''reporter'')))"
    using assms unfolding downtime_fields_def by (rule z_object_field_ok) simp
  moreover have "is_ok (fst (z_enum departments (required ''Select a department.'')
      (p @ [Key ''department'']) (get_prop v ''department'')))"
    using assms unfolding downtime_fields_def by (rule z_object_field_ok) simp
  moreover have "is_ok (fst (z_enum reasons (required ''Select a reason.'')
      (p @ [Key ''reason'']) (get_prop v ''reason'')))"
    using assms unfolding downtime_fields_def by (rule z_object_field_ok) simp
  moreover have "is_ok (fst (z_string no_params [StrMin 1 (Some ''Select a start date.'')]
      (p @ [Key ''startDate'']) (get_prop v ''startDate'')))"
    using assms unfolding downtime_fields_def by (rule z_object_field_ok) simp
  moreover have "is_ok (fst (z_string no_params [StrMin 1 (Some ''Select a start time.'')]
      (p @ [Key ''startTime'']) (get_prop v ''startTime'')))"
    using assms unfolding downtime_fields_def by (rule z_object_field_ok) simp
  ultimately show ?thesis
    using z_string_ok_str z_enum_ok_str by metis
qed

lemma other_or_selected_string:
  assumes "get_prop v f = JStr d"
    and "get_prop v f \<noteq> JStr ''Other'' \<or> truthy (opt_trim (get_prop v (f @ ''Other'')))"
    and "d \<noteq> []"
  shows "\<exists>s. other_or_selected f v = JStr s \<and> s \<noteq> []"
proof (cases "d = ''Other''")
  case True
  with assms(1,2) have t: "truthy (opt_trim (get_prop v (f @ ''Other'')))"
    by simp
  then obtain companion where "get_prop v (f @ ''Other'') = JStr companion"
    by (cases "get_prop v (f @ ''Other'')") simp_all
  with t True assms(1) show ?thesis
    by (simp add: other_or_selected_def)
next
  case False
  with assms(1,3) show ?thesis
    by (simp add: other_or_selected_def)
qed

lemma trim_or_null_cases:
  "trim_or_null x = Null \<or> (\<exists>s. trim_or_null x = JStr s \<and> s \<noteq> [])"
  by (cases x) (simp_all add: trim_or_null_def)

lemma trim_or_null_blank: "trim s = [] \<Longrightarrow> trim_or_null (JStr s) = Null"
  by (simp add: trim_or_null_def)

lemma downtime_accepted_payload:
  assumes "safeParse (FormSchema_Downtime parse) record = Success values"
  shows "\<exists>r ms dep rea.
      get_prop record ''reporter'' = JStr r
    \<and> parse (date_time_string (get_prop record ''startDate'') (get_prop record ''startTime'')) = Some ms
    \<and> other_or_selected ''department'' record = JStr dep \<and> dep \<noteq> []
    \<and> other_or_selected ''reason'' record = JStr rea \<and> rea \<noteq> []
    \<and> downtime_submit parse toISO record =
        Some (Inr (JObj
          [(''reporter'', JStr (trim r)),
           (''department'', JStr dep),
           (''reason'', JStr rea),
           (''startISO'', JStr (toISO ms)),
           (''details'', trim_or_null (get_prop record ''details'')),
           (''immediateAction'', trim_or_null (get_prop record ''immediateAction''))]))"
proof -
  from assms have s: "success (safeParse (FormSchema_Downtime parse) record)"
    by simp
  then have okS: "is_ok (fst (FormSchema_Downtime parse [] record))"
    by (simp add: safeParse_success)
  from downtime_ok[OF this] have ok: "is_ok (fst (downtime_fields [] record))"
    and r: "downtime_refinement parse record = []"
    by simp_all
  from ok have ni: "\<not> is_invalid (fst (downtime_fields [] record))"
    by (simp add: is_ok_iff)
  from assms okS have "values = ret_value (fst (FormSchema_Downtime parse [] record))"
    by (cases "FormSchema_Downtime parse [] record"; cases "fst (FormSchema_Downtime parse [] record)")
       (simp_all add: safeParse_def)
  then have v: "values = ret_value (fst (downtime_fields [] record))"
    by (simp add: FormSchema_Downtime_def z_superRefine_value)
  have g: "get_prop values k = get_prop record k"
    if "k \<in> {''reporter'', ''department'', ''departmentOther'', ''reason'', ''reasonOther'',
              ''startDate'', ''startTime'', ''details'', ''immediateAction''}" for k
    unfolding v using ni that by (rule downtime_fields_get)
  from downtime_field_types[OF ok] obtain rp d e sd st where
    t: "get_prop record ''reporter'' = JStr rp" "get_prop record ''department'' = JStr d"
       "get_prop record ''reason'' = JStr e" "get_prop record ''startDate'' = JStr sd"
       "get_prop record ''startTime'' = JStr st"
    and m: "d \<in> set departments" "e \<in> set reasons"
    by blast
  from m have dne: "d \<noteq> []" and ene: "e \<noteq> []"
    by (auto simp: departments_def reasons_def)
  from r have c1: "get_prop record ''department'' \<noteq> JStr ''Other''
        \<or> truthy (opt_trim (get_prop record (''department'' @ ''Other'')))"
    and c2: "get_prop record ''reason'' \<noteq> JStr ''Other''
        \<or> truthy (opt_trim (get_prop record (''reason'' @ ''Other'')))"
    and c3: "parse (date_time_string (get_prop record ''startDate'') (get_prop record ''startTime'')) \<noteq> None"
    by (auto simp: downtime_refinement_def split: if_splits)
  from c3 obtain ms where ms:
    "parse (date_time_string (get_prop record ''startDate'') (get_prop record ''startTime'')) = Some ms"
    by auto
  from other_or_selected_string[OF t(2) c1 dne] obtain dep where
    dep: "other_or_selected ''department'' record = JStr dep" "dep \<noteq> []"
    by auto
  from other_or_selected_string[OF t(3) c2 ene] obtain rea where
    rea: "other_or_selected ''reason'' record = JStr rea" "rea \<noteq> []"
    by auto
  have o: "other_or_selected ''department'' values = other_or_selected ''department'' record"
    "other_or_selected ''reason'' values = other_or_selected ''reason'' record"
    by (simp_all add: other_or_selected_def g)
  have "downtime_submit parse toISO record =
        Some (Inr (JObj
          [(''reporter'', JStr (trim rp)),
           (''department'', JStr dep),
           (''reason'', JStr rea),
           (''startISO'', JStr (toISO ms)),
           (''details'', trim_or_null (get_prop record ''details'')),
           (''immediateAction'', trim_or_null (get_prop record ''immediateAction''))]))"
    using t(1) ms dep(1) rea(1)
    by (simp add: downtime_submit_def assms downtime_payload_def combineISO_def g o)
  with t(1) ms dep rea show ?thesis
    by blast
qed

lemma downtime_record_fields:
  "downtime_fields [] downtime_record = (OK downtime_record, [])"
  by (simp add: downtime_fields_def downtime_record_def zod_defs departments_def reasons_def)

lemma downtime_record_accepted:
  "safeParse (FormSchema_Downtime parse_2025) downtime_record = Success downtime_record"
  unfolding safeParse_def FormSchema_Downtime_def z_superRefine_def downtime_record_fields
  by (simp add: mk_return_def downtime_refinement_def downtime_record_def obj_get_def parse_2025_def
      trim_def is_js_space_def)

text \<open>
  C10. When validation accepts a downtime record, \<^verbatim>\<open>onSubmit\<close> runs without a TypeError or
  RangeError and passes on this payload: the reporter trimmed; as department the trimmed
  \<open>departmentOther\<close> when the department is "Other" and the selected department otherwise, in
  both cases a non-empty string, and likewise the reason; as \<open>startISO\<close> the ISO text of the
  instant that start date, "T" and start time parse to; and for details and immediate action
  the trimmed text, or null when it is missing, empty or white space only.
\<close>

theorem downtime_payload_normalized:
  assumes "safeParse (FormSchema_Downtime parse) record = Success values"
  shows "\<exists>r ms dep rea.
      get_prop record ''reporter'' = JStr r
    \<and> parse (date_time_string (get_prop record ''startDate'') (get_prop record ''startTime'')) = Some ms
    \<and> other_or_selected ''department'' record = JStr dep \<and> dep \<noteq> []
    \<and> other_or_selected ''reason'' record = JStr rea \<and> rea \<noteq> []
    \<and> downtime_submit parse toISO record =
        Some (Inr (JObj
          [(''reporter'', JStr (trim r)),
           (''department'', JStr dep),
           (''reason'', JStr rea),
           (''startISO'', JStr (toISO ms)),
           (''details'', trim_or_null (get_prop record ''details'')),
           (''immediateAction'', trim_or_null (get_prop record ''immediateAction''))]))
    \<and> (trim_or_null (get_prop record ''details'') = Null
         \<or> (\<exists>s. trim_or_null (get_prop record ''details'') = JStr s \<and> s \<noteq> []))
    \<and> (trim_or_null (get_prop record ''immediateAction'') = Null
         \<or> (\<exists>s. trim_or_null (get_prop record ''immediateAction'') = JStr s \<and> s \<noteq> []))"
  using downtime_accepted_payload[OF assms, of toISO]
    trim_or_null_cases[of "get_prop record ''details''"]
    trim_or_null_cases[of "get_prop record ''immediateAction''"]
  by blast

theorem downtime_payload_normalized_witness:
  "downtime_submit parse_2025 toISO_2025 downtime_record =
     Some (Inr (JObj
       [(''reporter'', JStr ''Tendai''),
        (''department'', JStr ''Packing''),
        (''reason'', JStr ''Maintenance''),
        (''startISO'', JStr ''2025-01-01T08:00:00.000Z''),
        (''details'', Null),
        (''immediateAction'', JStr ''Called the electrician'')]))"
proof -
  from downtime_payload_normalized[OF downtime_record_accepted, of toISO_2025]
  obtain r ms dep rea where
    1: "get_prop downtime_record ''reporter'' = JStr r"
    and 2: "parse_2025 (date_time_string (get_prop downtime_record ''startDate'')
        (get_prop downtime_record ''startTime'')) = Some ms"
    and 3: "other_or_selected ''department'' downtime_record = JStr dep"
    and 4: "other_or_selected ''reason'' downtime_record = JStr rea"
    and 5: "downtime_submit parse_2025 toISO_2025 downtime_record =
        Some (Inr (JObj
          [(''reporter'', JStr (trim r)),
           (''department'', JStr dep),
           (''reason'', JStr rea),
           (''startISO'', JStr (toISO_2025 ms)),
           (''details'', trim_or_null (get_prop downtime_record ''details'')),
           (''immediateAction'', trim_or_null (get_prop downtime_record ''immediateAction''))]))"
    by blast
  from 1 have r: "r = '' Tendai ''"
    by (simp add: downtime_record_def obj_get_def)
  from 2 have ms: "ms = 1735718400000"
    by (simp add: downtime_record_def obj_get_def parse_2025_def)
  from 3 have dep: "dep = ''Packing''"
    by (simp add: downtime_record_def obj_get_def other_or_selected_def trim_def is_js_space_def)
  from 4 have rea: "rea = ''Maintenance''"
    by (simp add: downtime_record_def obj_get_def other_or_selected_def)
  show ?thesis
    unfolding 5 r ms dep rea
    by (simp add: downtime_record_def obj_get_def toISO_2025_def trim_or_null_def trim_def
        is_js_space_def)
qed

section \<open>Customer form: the date of death\<close>

lemma death_before_birth_true:
  assumes "birthDate d = Some b" and "b \<noteq> []" and "deathDate d \<noteq> []"
    and "parse (deathDate d) = Some td" and "parse b = Some tb" and "td < tb"
  shows "death_before_birth parse d"
  using assms by (simp add: death_before_birth_def)

lemma death_before_birth_empty:
  assumes "birthDate d = None \<or> birthDate d = Some [] \<or> deathDate d = []"
  shows "\<not> death_before_birth parse d"
  using assms by (auto simp: death_before_birth_def split: option.splits)

lemma nextStep_second_blocked:
  assumes "step st = 1" and "death_before_birth parse (form_data st)"
  shows "errors (nextStep parse st) ''deathDate'' = Some death_message"
    and "step (nextStep parse st) = 1"
    and "submitted (nextStep parse st) = submitted st"
    and "form_data (nextStep parse st) = form_data st"
  using assms
  by (simp_all add: nextStep_def trigger_def fieldsPerStep_def field_error_def)

lemma nextStep_second_free:
  assumes "step st = 1" and "\<not> death_before_birth parse (form_data st)"
  shows "errors (nextStep parse st) ''deathDate'' = None"
    and "submitted (nextStep parse st) = submitted st"
  using assms
  by (simp_all add: nextStep_def trigger_def fieldsPerStep_def field_error_def)

text \<open>
  C8. Let both dates of \<open>d\<close> be non-empty and the date of death parse to an instant strictly
  before the date of birth. Then \<^verbatim>\<open>nextStep\<close> on the deceased-details step sets the error
  "Date of death cannot be before date of birth." on \<open>deathDate\<close> and stays on that step;
  \<^verbatim>\<open>onSubmit\<close> sets the same error, goes to that step and logs nothing, so the record is
  not submitted. Let one of the two dates of \<open>c\<close> be empty
  (or the date of birth be missing). Then \<^verbatim>\<open>nextStep\<close> leaves \<open>deathDate\<close> without an error and
  \<^verbatim>\<open>onSubmit\<close> only logs the record.
\<close>

theorem death_date_rule:
  assumes "birthDate d = Some b" and "b \<noteq> []" and "deathDate d \<noteq> []"
    and "parse (deathDate d) = Some td" and "parse b = Some tb" and "td < tb"
    and "birthDate c = None \<or> birthDate c = Some [] \<or> deathDate c = []"
  shows "(step st = 1 \<and> form_data st = d
          \<longrightarrow> errors (nextStep parse st) ''deathDate'' = Some death_message
            \<and> step (nextStep parse st) = 1
            \<and> submitted (nextStep parse st) = submitted st)
    \<and> onSubmit_customer parse st d
        = st\<lparr>errors := (errors st)(''deathDate'' \<mapsto> death_message), step := 1\<rparr>
    \<and> (step st = 1 \<and> form_data st = c \<longrightarrow> errors (nextStep parse st) ''deathDate'' = None)
    \<and> onSubmit_customer parse st c = st\<lparr>submitted := submitted st @ [c]\<rparr>"
proof -
  have bad: "death_before_birth parse d"
    using assms(1-6) by (rule death_before_birth_true)
  have free: "\<not> death_before_birth parse c"
    using assms(7) by (rule death_before_birth_empty)
  show ?thesis
    using bad free nextStep_second_blocked[of st parse] nextStep_second_free[of st parse]
    by (simp add: onSubmit_customer_def)
qed

theorem death_date_rule_witness:
  "errors (nextStep parse_1950 (second_step customer_1950)) ''deathDate'' = Some death_message
   \<and> step (onSubmit_customer parse_1950 (second_step customer_1950) customer_1950) = 1
   \<and> submitted (onSubmit_customer parse_1950 (second_step customer_1950) customer_1950) = []
   \<and> submitted (onSubmit_customer parse_1950 (second_step customer_1950)
        (customer_1950\<lparr>birthDate := Some []\<rparr>)) = [customer_1950\<lparr>birthDate := Some []\<rparr>]"
proof -
  have 1: "birthDate customer_1950 = Some ''1950-06-01''" and 2: "''1950-06-01'' \<noteq> []"
    and 3: "deathDate customer_1950 \<noteq> []"
    and 4: "parse_1950 (deathDate customer_1950) = Some (- 649641600000)"
    and 5: "parse_1950 ''1950-06-01'' = Some (- 618105600000)"
    and 6: "(- 649641600000 :: int) < - 618105600000"
    and 7: "birthDate (customer_1950\<lparr>birthDate := Some []\<rparr>) = None
      \<or> birthDate (customer_1950\<lparr>birthDate := Some []\<rparr>) = Some []
      \<or> deathDate (customer_1950\<lparr>birthDate := Some []\<rparr>) = []"
    by (simp_all add: customer_1950_def parse_1950_def)
  show ?thesis
    using death_date_rule[OF 1 2 3 4 5 6 7, of "second_step customer_1950"]
    by (simp add: second_step_def)
qed

section \<open>User registration: submission and the draft\<close>

lemma onSubmit_rejected:
  assumes "server e = Rejected m"
  shows "localStorage (onSubmit_registration e st vals) = localStorage st"
    and "idb (onSubmit_registration e st vals) = idb st"
    and "form_values (onSubmit_registration e st vals) = form_values st"
    and "requests (onSubmit_registration e st vals) = requests st @ [vals]"
    and "location (onSubmit_registration e st vals) = location st"
    and "\<exists>t. toasts (onSubmit_registration e st vals) = toasts st @ [t]
          \<and> actionLabel t = Some ''Retry'' \<and> onAction t = Some Retry"
  using assms by (simp_all add: onSubmit_registration_def Let_def)

lemma onSubmit_requests:
  "requests (onSubmit_registration e st vals) = requests st @ [vals]"
  by (cases "server e") (simp_all add: onSubmit_registration_def clearDrafts_def Let_def)

lemma onSubmit_resolved:
  assumes "server e = Resolved"
  shows "localStorage (onSubmit_registration e st vals) =
           (if removeItem_throws e then localStorage st else (localStorage st)(DRAFT_KEY := None))"
    and "idb (onSubmit_registration e st vals) =
           (if removeItem_throws e \<or> del_rejects e then idb st else (idb st)(DRAFT_KEY := None))"
    and "location (onSubmit_registration e st vals) = Some ''/success''"
  using assms by (simp_all add: onSubmit_registration_def clearDrafts_def Let_def)

lemma loadDraft_absent:
  assumes "localStorage st DRAFT_KEY = None" and "idb st DRAFT_KEY = None"
  shows "loadDraft json_parse st = None"
  using assms by (simp add: loadDraft_def)

text \<open>
  C9, as stated, fails when a store fails: \<^verbatim>\<open>clearDrafts\<close> ignores the error of a removal.
  With the draft in both stores, a submission that succeeds and a \<^verbatim>\<open>del\<close> that rejects, the
  IndexedDB draft is still there, and the next load finds it.
\<close>

theorem draft_survives_failed_removal:
  "loadDraft no_json
     (onSubmit_registration \<lparr>server = Resolved, removeItem_throws = False, del_rejects = True\<rparr>
        registration_with_draft draft_user)
   = Some draft_user"
  by (simp add: onSubmit_registration_def clearDrafts_def loadDraft_def Let_def
      registration_with_draft_def draft_user_def)

text \<open>
  C9, amended. When \<^verbatim>\<open>submitToServer\<close> fails, \<^verbatim>\<open>onSubmit\<close> leaves both stores and the
  form values as they are and shows a toast whose action is "Retry"; running that action
  sends the current form values to the server again. When \<^verbatim>\<open>submitToServer\<close> succeeds and
  neither removal fails, the draft is gone from both stores and a load finds no draft.
\<close>

theorem submit_and_drafts:
  "(server e = Rejected m \<longrightarrow>
      localStorage (onSubmit_registration e st vals) = localStorage st
      \<and> idb (onSubmit_registration e st vals) = idb st
      \<and> form_values (onSubmit_registration e st vals) = form_values st
      \<and> (\<exists>t. toasts (onSubmit_registration e st vals) = toasts st @ [t]
             \<and> actionLabel t = Some ''Retry'' \<and> onAction t = Some Retry)
      \<and> requests (run_action e' (onSubmit_registration e st vals) Retry)
          = requests st @ [vals, form_values st])
   \<and> (server e = Resolved \<and> \<not> removeItem_throws e \<and> \<not> del_rejects e \<longrightarrow>
      localStorage (onSubmit_registration e st vals) DRAFT_KEY = None
      \<and> idb (onSubmit_registration e st vals) DRAFT_KEY = None
      \<and> loadDraft json_parse (onSubmit_registration e st vals) = None)"
proof (intro conjI impI)
  assume r: "server e = Rejected m"
  show "localStorage (onSubmit_registration e st vals) = localStorage st"
    and "idb (onSubmit_registration e st vals) = idb st"
    and "form_values (onSubmit_registration e st vals) = form_values st"
    and "\<exists>t. toasts (onSubmit_registration e st vals) = toasts st @ [t]
          \<and> actionLabel t = Some ''Retry'' \<and> onAction t = Some Retry"
    using onSubmit_rejected[OF r] by simp_all
  show "requests (run_action e' (onSubmit_registration e st vals) Retry)
      = requests st @ [vals, form_values st]"
    using onSubmit_rejected(3,4)[OF r] by (simp add: onSubmit_requests)
next
  assume a: "server e = Resolved \<and> \<not> removeItem_throws e \<and> \<not> del_rejects e"
  then show l: "localStorage (onSubmit_registration e st vals) DRAFT_KEY = None"
    and i: "idb (onSubmit_registration e st vals) DRAFT_KEY = None"
    by (simp_all add: onSubmit_resolved)
  from l i show "loadDraft json_parse (onSubmit_registration e st vals) = None"
    by (rule loadDraft_absent)
qed

theorem submit_and_drafts_witness:
  "localStorage (onSubmit_registration
       \<lparr>server = Rejected (Some ''Network error. Please check your connection.''),
        removeItem_throws = False, del_rejects = False\<rparr> registration_with_draft draft_user)
     = localStorage registration_with_draft
   \<and> idb (onSubmit_registration
       \<lparr>server = Rejected (Some ''Network error. Please check your connection.''),
        removeItem_throws = False, del_rejects = False\<rparr> registration_with_draft draft_user)
       DRAFT_KEY = Some draft_user
   \<and> requests (run_action
        \<lparr>server = Resolved, removeItem_throws = False, del_rejects = False\<rparr>
        (onSubmit_registration
          \<lparr>server = Rejected (Some ''Network error. Please check your connection.''),
           removeItem_throws = False, del_rejects = False\<rparr> registration_with_draft draft_user)
        Retry) = [draft_user, draft_user]
   \<and> loadDraft no_json (onSubmit_registration
        \<lparr>server = Resolved, removeItem_throws = False, del_rejects = False\<rparr>
        registration_with_draft draft_user) = None"
proof -
  let ?fail = "\<lparr>server = Rejected (Some ''Network error. Please check your connection.''),
        removeItem_throws = False, del_rejects = False\<rparr>"
  let ?ok = "\<lparr>server = Resolved, removeItem_throws = False, del_rejects = False\<rparr>"
  have f: "server ?fail = Rejected (Some ''Network error. Please check your connection.'')"
    by simp
  have o: "server ?ok = Resolved \<and> \<not> removeItem_throws ?ok \<and> \<not> del_rejects ?ok"
    by simp
  note rejected = submit_and_drafts[of ?fail _ registration_with_draft draft_user ?ok,
      THEN conjunct1, rule_format, OF f]
  note resolved = submit_and_drafts[of ?ok _ registration_with_draft draft_user _ no_json,
      THEN conjunct2, rule_format, OF o]
  from rejected have 1: "localStorage (onSubmit_registration ?fail registration_with_draft draft_user)
      = localStorage registration_with_draft"
    by blast
  from rejected have "idb (onSubmit_registration ?fail registration_with_draft draft_user)
      = idb registration_with_draft"
    by blast
  then have 2: "idb (onSubmit_registration ?fail registration_with_draft draft_user) DRAFT_KEY
      = Some draft_user"
    by (simp add: registration_with_draft_def)
  from rejected have "requests (run_action ?ok
        (onSubmit_registration ?fail registration_with_draft draft_user) Retry)
      = requests registration_with_draft @ [draft_user, form_values registration_with_draft]"
    by blast
  then have 3: "requests (run_action ?ok
        (onSubmit_registration ?fail registration_with_draft draft_user) Retry)
      = [draft_user, draft_user]"
    by (simp only: registration_with_draft_def registration.simps append_Nil)
  from resolved have 4: "loadDraft no_json
      (onSubmit_registration ?ok registration_with_draft draft_user) = None"
    by blast
  from 1 2 3 4 show ?thesis
    by (simp only: simp_thms)
qed

section \<open>Employment details: secondary roles\<close>

lemma duplicate_seen_iff:
  "duplicate_seen rs seen \<longleftrightarrow> \<not> distinct rs \<or> (\<exists>r \<in> set rs. r \<in> seen)"
  by (induction rs arbitrary: seen) auto

lemma z_enum_value: "is_ok (fst (z_enum vals ps p v)) \<Longrightarrow> ret_value (fst (z_enum vals ps p v)) = v"
  by (cases v) (simp_all add: z_enum_def split: if_splits)

lemma z_array_value:
  assumes "\<And>p v. is_ok (fst (elem p v)) \<Longrightarrow> ret_value (fst (elem p v)) = v"
    and "is_ok (fst (z_array elem ml p (JArr xs)))"
  shows "ret_value (fst (z_array elem ml p (JArr xs))) = JArr xs"
proof -
  let ?rs = "map (\<lambda>(i, x). elem (p @ [Idx i]) x) (enumerate 0 xs)"
  have "map (ret_value \<circ> fst) ?rs = xs"
  proof (rule nth_equalityI)
    show "length (map (ret_value \<circ> fst) ?rs) = length xs"
      by simp
  next
    fix i
    assume "i < length (map (ret_value \<circ> fst) ?rs)"
    then have i: "i < length xs"
      by simp
    with assms(2) have "is_ok (fst (elem (p @ [Idx i]) (xs ! i)))"
      by (rule z_array_ok_elem)
    then have "ret_value (fst (elem (p @ [Idx i]) (xs ! i))) = xs ! i"
      by (rule assms(1))
    with i show "map (ret_value \<circ> fst) ?rs ! i = xs ! i"
      by (simp add: nth_enumerate_eq)
  qed
  moreover from assms(2) have "\<not> is_invalid (fst (z_array elem ml p (JArr xs)))"
    by (simp add: is_ok_iff)
  ultimately show ?thesis
    by (simp add: z_array_def Let_def merge_status_value)
qed

lemma duplicate_roles_rejected:
  assumes "get_prop v ''secondaryRoles'' = JArr roles" and "\<not> distinct roles"
  shows "\<not> success (safeParse EmploymentDetailsSchema v)"
proof
  assume "success (safeParse EmploymentDetailsSchema v)"
  then have ok: "is_ok (fst (employment_fields [] v))"
    and r: "secondaryRoles_refinement (ret_value (fst (employment_fields [] v))) = []"
    by (simp_all add: safeParse_success EmploymentDetailsSchema_def z_refine_ok_iff z_superRefine_ok_iff)
  let ?s = "z_default (z_array (z_enum OCCUPATIONS no_params) None) (JArr [])"
  have mem: "(''secondaryRoles'', ?s) \<in> set
     [(''employeeId'',
         z_string (required ''Employee ID is required'')
           [StrTrim, StrMin 1 (Some ''Employee ID is required''),
            StrMax 32 (Some ''Employee ID is too long'')]),
      (''primaryRole'', z_enum OCCUPATIONS (required ''Primary role is required'')),
      (''secondaryRoles'', z_default (z_array (z_enum OCCUPATIONS no_params) None) (JArr [])),
      (''dateOfJoiningDate'', z_date (required ''Date of joining is required'')),
      (''employmentType'', z_enum EMPLOYMENT_TYPES (required ''Employment Type is required'')),
      (''workLocation'', z_enum WORK_LOCATIONS (required ''Work Location is required'')),
      (''status'', z_enum STATUS_TYPES (required ''Status is required''))]"
    by simp
  from ok have ni: "\<not> is_invalid (fst (employment_fields [] v))"
    by (simp add: is_ok_iff)
  from ok have "is_ok (fst (?s ([] @ [Key ''secondaryRoles'']) (get_prop v ''secondaryRoles'')))"
    unfolding employment_fields_def using mem by (rule z_object_field_ok)
  with assms(1) have aok: "is_ok (fst (z_array (z_enum OCCUPATIONS no_params) None [Key ''secondaryRoles''] (JArr roles)))"
    by (simp add: z_default_def)
  have "get_prop (ret_value (fst (employment_fields [] v))) ''secondaryRoles''
      = ret_value (fst (?s ([] @ [Key ''secondaryRoles'']) (get_prop v ''secondaryRoles'')))"
    using ni unfolding employment_fields_def
    by (rule z_object_value_get) (simp, rule mem)
  also have "\<dots> = ret_value (fst (z_array (z_enum OCCUPATIONS no_params) None [Key ''secondaryRoles''] (JArr roles)))"
    using assms(1) by (simp add: z_default_def)
  also have "\<dots> = JArr roles"
    using z_enum_value aok by (rule z_array_value)
  finally have "secondaryRoles_refinement (ret_value (fst (employment_fields [] v))) \<noteq> []"
    using assms(2) by (simp add: secondaryRoles_refinement_def duplicate_seen_iff)
  with r show False
    by simp
qed

lemma trim_EMP: "trim ''EMP-001'' = ''EMP-001''"
  by (simp add: trim_def is_js_space_def)

lemma employee_fields_ok:
  assumes "r \<in> set OCCUPATIONS"
  shows "employment_fields [] (employee r [JStr r]) = (OK (employee r [JStr r]), [])"
  using assms
  by (simp add: employment_fields_def employee_def zod_defs trim_EMP
      EMPLOYMENT_TYPES_def WORK_LOCATIONS_def STATUS_TYPES_def)

lemma primary_as_secondary_accepted:
  assumes "r \<in> set OCCUPATIONS"
  shows "safeParse EmploymentDetailsSchema (employee r [JStr r]) = Success (employee r [JStr r])"
  unfolding safeParse_def EmploymentDetailsSchema_def z_refine_def z_superRefine_def
    employee_fields_ok[OF assms]
  by (simp add: mk_return_def secondaryRoles_refinement_def employee_def obj_get_def)

text \<open>
  C6. The employment-details schema rejects every record whose \<open>secondaryRoles\<close> is an array
  in which some value occurs twice, whatever its other fields are; and it accepts the employee
  of its own tests with any occupation as the primary role and that same occupation as the
  only secondary role.
\<close>

theorem secondaryRoles_duplicates:
  assumes "get_prop v ''secondaryRoles'' = JArr roles" and "\<not> distinct roles"
    and "r \<in> set OCCUPATIONS"
  shows "\<not> success (safeParse EmploymentDetailsSchema v)
    \<and> safeParse EmploymentDetailsSchema (employee r [JStr r]) = Success (employee r [JStr r])"
  using assms duplicate_roles_rejected primary_as_secondary_accepted by blast

theorem secondaryRoles_duplicates_witness:
  "\<not> success (safeParse EmploymentDetailsSchema
       (employee ''Painter'' [JStr ''Painter'', JStr ''Painter'']))
   \<and> success (safeParse EmploymentDetailsSchema (employee ''Painter'' [JStr ''Painter'']))"
proof -
  have 1: "get_prop (employee ''Painter'' [JStr ''Painter'', JStr ''Painter'']) ''secondaryRoles''
      = JArr [JStr ''Painter'', JStr ''Painter'']"
    by (simp add: employee_def obj_get_def)
  have 2: "\<not> distinct [JStr ''Painter'', JStr ''Painter'']"
    by simp
  have 3: "''Painter'' \<in> set OCCUPATIONS"
    by (simp add: OCCUPATIONS_def)
  show ?thesis
    using secondaryRoles_duplicates[OF 1 2 3] by simp
qed

section \<open>Stock receipt: the total cost\<close>

lemma pow2_powi: "pow2 k = 2 powi k"
  by (simp add: pow2_def power_int_def field_simps)

lemma pow2_pos: "0 < pow2 k"
  by (simp add: pow2_powi)

lemma pow2_add: "pow2 (a + b) = pow2 a * pow2 b"
  by (simp add: pow2_powi power_int_add)

lemma pow2_diff: "pow2 a / pow2 b = pow2 (a - b)"
proof -
  have "pow2 (a - b) * pow2 b = pow2 a"
    by (simp add: pow2_add[symmetric])
  then show ?thesis
    using pow2_pos[of b] by (simp add: field_simps)
qed

lemma pow2_mono: "a \<le> b \<Longrightarrow> pow2 a \<le> pow2 b"
  by (simp add: pow2_powi power_int_increasing)

lemma pow2_strict_mono: "a < b \<Longrightarrow> pow2 a < pow2 b"
  by (simp add: pow2_powi power_int_strict_increasing)

lemma pow2_less_iff: "pow2 a < pow2 b \<longleftrightarrow> a < b"
  using pow2_mono[of b a] pow2_strict_mono[of a b] by (auto simp: not_le[symmetric])

lemma bitlen_pow2_bounds:
  assumes "0 < a"
  shows "pow2 (bitlen a - 1) \<le> of_int a" and "of_int a < pow2 (bitlen a)"
proof -
  from assms have b: "1 \<le> bitlen a"
    by (simp add: bitlen_alt_def)
  from bitlen_bounds[OF assms] have l: "2 ^ nat (bitlen a - 1) \<le> a" and u: "a < 2 ^ nat (bitlen a)"
    by simp_all
  from l have "(of_int (2 ^ nat (bitlen a - 1)) :: rat) \<le> of_int a"
    by (simp only: of_int_le_iff)
  then show "pow2 (bitlen a - 1) \<le> of_int a"
    using b by (simp add: pow2_def)
  from u have "(of_int a :: rat) < of_int (2 ^ nat (bitlen a))"
    by (simp only: of_int_less_iff)
  then show "of_int a < pow2 (bitlen a)"
    using b by (simp add: pow2_def)
qed

lemma floor_log2_bounds:
  assumes "0 < x"
  shows "pow2 (floor_log2 x) \<le> x \<and> x < pow2 (floor_log2 x + 1)"
proof -
  obtain a b where q: "quotient_of x = (a, b)"
    by (cases "quotient_of x")
  then have b: "0 < b" and x: "x = of_int a / of_int b"
    by (simp_all add: quotient_of_denom_pos quotient_of_div)
  with assms have a: "0 < a"
    by (simp add: zero_less_divide_iff)
  define d where "d = bitlen a - bitlen b"
  have fl: "floor_log2 x = (if pow2 d \<le> x then d else d - 1)"
    by (simp add: floor_log2_def q d_def)
  have "x < pow2 (bitlen a) / pow2 (bitlen b - 1)"
    unfolding x using bitlen_pow2_bounds[OF a] bitlen_pow2_bounds[OF b] a b
    by (intro frac_less) (simp_all add: pow2_pos)
  also have "\<dots> = pow2 (d + 1)"
    by (simp add: pow2_diff d_def algebra_simps)
  finally have up: "x < pow2 (d + 1)" .
  have "pow2 (bitlen a - 1) / pow2 (bitlen b) < x"
    unfolding x using bitlen_pow2_bounds[OF a] bitlen_pow2_bounds[OF b] a b
    by (intro frac_less2) (simp_all add: pow2_pos less_imp_le)
  moreover have "pow2 (bitlen a - 1) / pow2 (bitlen b) = pow2 (d - 1)"
    by (simp add: pow2_diff d_def algebra_simps)
  ultimately have lo: "pow2 (d - 1) < x" by simp
  show ?thesis
    using up lo by (simp add: fl not_le)
qed

lemma floor_log2_unique:
  assumes "pow2 e \<le> x" and "x < pow2 (e + 1)"
  shows "floor_log2 x = e"
proof -
  have "0 < x" using assms(1) pow2_pos[of e] by simp
  from floor_log2_bounds[OF this] have l: "pow2 (floor_log2 x) \<le> x" and u: "x < pow2 (floor_log2 x + 1)"
    by simp_all
  from assms(1) u have "pow2 e < pow2 (floor_log2 x + 1)" by simp
  then have 1: "e < floor_log2 x + 1" by (simp only: pow2_less_iff)
  from l assms(2) have "pow2 (floor_log2 x) < pow2 (e + 1)" by simp
  then have 2: "floor_log2 x < e + 1" by (simp only: pow2_less_iff)
  from 1 2 show ?thesis by simp
qed

lemma round64_eval:
  assumes "pow2 e \<le> \<bar>x\<bar>" and "\<bar>x\<bar> < pow2 (e + 1)" and "\<bar>x\<bar> < 2 ^ 1024 - 2 ^ 970"
    and "k = max e (- 1022) - 52"
  shows "round64 x = Fin (of_int (round_ties_even (x / pow2 k)) * pow2 k)"
proof -
  from assms(1) have "x \<noteq> 0"
    using pow2_pos[of e] by auto
  moreover have "floor_log2 \<bar>x\<bar> = e"
    using assms(1,2) by (rule floor_log2_unique)
  ultimately show ?thesis
    using assms(3,4) by (simp add: round64_def Let_def)
qed

lemma round64_2345: "round64 (2345 / 1000) = Fin (5280470563091907 / 2251799813685248)"
  by (subst round64_eval[where e = 1 and k = "- 51"])
     (simp_all add: pow2_def round_ties_even_def floor_rat_numeral_div)

lemma round64_704: "round64 (704 / 100) = Fin (7926335344172073 / 1125899906842624)"
  by (subst round64_eval[where e = 2 and k = "- 50"])
     (simp_all add: pow2_def round_ties_even_def floor_rat_numeral_div)

lemma round64_50: "round64 50 = Fin 50"
  by (subst round64_eval[where e = 5 and k = "- 47"])
     (simp_all add: pow2_def round_ties_even_def floor_rat_numeral_div)

lemma round64_product: "round64 (15841411689275721 / 2251799813685248) = Fin (1980176461159465 / 281474976710656)"
  by (subst round64_eval[where e = 2 and k = "- 50"])
     (simp_all add: pow2_def round_ties_even_def floor_rat_numeral_div)


lemma round64_7035: "round64 (7035 / 1000) = Fin (1980176461159465 / 281474976710656)"
  by (subst round64_eval[where e = 2 and k = "- 50"])
     (simp_all add: pow2_def round_ties_even_def floor_rat_numeral_div)

lemma floor_rat_one_div: "\<lfloor>1 / numeral b :: rat\<rfloor> = 1 div numeral b"
  by (metis floor_divide_of_int_eq of_int_1 of_int_numeral)

lemma round64_0: "round64 0 = Fin 0"
  by (simp add: round64_def)

lemma round64_finite_iff: "isFinite (round64 x) \<longleftrightarrow> \<bar>x\<bar> < 2 ^ 1024 - 2 ^ 970"
  by (simp add: round64_def Let_def)

lemma toFixed2_bound:
  assumes "\<bar>x\<bar> < 10 ^ 21"
  shows "\<bar>toFixed2 x\<bar> < 2 ^ 1024 - 2 ^ 970"
proof -
  have "of_int \<lfloor>\<bar>x\<bar> * 100 + 1 / 2\<rfloor> \<le> \<bar>x\<bar> * 100 + 1 / 2"
    by (rule of_int_floor_le)
  moreover have "0 \<le> \<lfloor>\<bar>x\<bar> * 100 + 1 / 2\<rfloor>"
    by simp
  ultimately have "\<bar>toFixed2 x\<bar> \<le> (\<bar>x\<bar> * 100 + 1 / 2) / 100"
    by (simp add: toFixed2_def Let_def abs_mult)
  also have "\<dots> < 10 ^ 21 + 1"
    using assms by simp
  also have "\<dots> < (2 ^ 1024 - 2 ^ 970 :: rat)"
    by simp
  finally show ?thesis .
qed

lemma Number_toFixed2_finite: "isFinite (Number_toFixed2 y) \<longleftrightarrow> isFinite y"
proof (cases y)
  case (Fin x)
  then show ?thesis
    using toFixed2_bound[of x] by (simp add: round64_finite_iff not_le)
qed simp_all

lemma calcTotalCost_alt:
  "calcTotalCost q p = Number_toFixed2 (round64 (finite_or_zero q * finite_or_zero p))"
  by (cases q; cases p) (simp_all add: calcTotalCost_def js_mul_def)

lemma toFixed2_0: "toFixed2 0 = 0"
  by (simp add: toFixed2_def floor_rat_one_div)

lemma calcTotalCost_zero: "calcTotalCost (Fin 0) p = Fin 0" "calcTotalCost q (Fin 0) = Fin 0"
  by (simp_all add: calcTotalCost_alt round64_0 toFixed2_0)

lemma calcTotalCost_finite_iff: "isFinite (calcTotalCost q p) \<longleftrightarrow> \<bar>finite_or_zero q * finite_or_zero p\<bar> < 2 ^ 1024 - 2 ^ 970"
  by (simp add: calcTotalCost_alt Number_toFixed2_finite round64_finite_iff)

lemma calcTotalCost_not_NaN: "calcTotalCost q p \<noteq> NaN"
  by (cases "round64 (finite_or_zero q * finite_or_zero p)")
     (auto simp add: calcTotalCost_alt round64_def Let_def split: if_splits)

text \<open>
  C2. The pinned outputs: \<open>calcTotalCost(10, 5) = 50\<close>; \<open>calcTotalCost(3, 2.345) = 7.04\<close>, where
  2.345 and 7.04 are the doubles nearest to these decimals (given as exact fractions), the
  product \<open>3 * 2.345\<close> is the double that prints as 7.035, and rounding the decimal 7.035 to
  two places, halves away from zero, gives 7.04 as well; \<open>calcTotalCost(NaN, 10) = 0\<close> and
  \<open>calcTotalCost(2, NaN) = 0\<close>.
\<close>

theorem calcTotalCost_scenarios:
  "calcTotalCost (Fin 10) (Fin 5) = Fin 50
   \<and> round64 (2345 / 1000) = Fin (5280470563091907 / 2251799813685248)
   \<and> round64 (704 / 100) = Fin (7926335344172073 / 1125899906842624)
   \<and> calcTotalCost (Fin 3) (round64 (2345 / 1000)) = round64 (704 / 100)
   \<and> js_mul (Fin 3) (round64 (2345 / 1000)) = round64 (7035 / 1000)
   \<and> toFixed2 (7035 / 1000) = 704 / 100
   \<and> calcTotalCost NaN (Fin 10) = Fin 0
   \<and> calcTotalCost (Fin 2) NaN = Fin 0"
proof -
  have "calcTotalCost (Fin 10) (Fin 5) = Fin 50"
    by (simp add: calcTotalCost_def js_mul_def round64_50 toFixed2_def floor_rat_numeral_div)
  moreover have "calcTotalCost (Fin 3) (round64 (2345 / 1000)) = round64 (704 / 100)"
    unfolding round64_2345 calcTotalCost_def js_mul_def
    by (simp add: round64_product toFixed2_def floor_rat_numeral_div round64_704[simplified])
  moreover have "js_mul (Fin 3) (round64 (2345 / 1000)) = round64 (7035 / 1000)"
    unfolding round64_2345 round64_7035 by (simp add: js_mul_def round64_product)
  moreover have "toFixed2 (7035 / 1000) = 704 / 100"
    by (simp add: toFixed2_def floor_rat_numeral_div)
  moreover have "calcTotalCost NaN (Fin 10) = Fin 0" and "calcTotalCost (Fin 2) NaN = Fin 0"
    by (simp_all add: calcTotalCost_def js_mul_def round64_0 toFixed2_0)
  ultimately show ?thesis
    using round64_2345 round64_704 by (simp only: simp_thms)
qed

text \<open>
  C3, as stated, fails: the arguments are made finite but their product is not checked, and
  \<open>2^1023 * 2\<close> overflows to \<open>Infinity\<close>, which \<^verbatim>\<open>toFixed\<close> and \<^verbatim>\<open>Number\<close> hand back.
\<close>

theorem calcTotalCost_overflow: "\<not> isFinite (calcTotalCost (Fin (2 ^ 1023)) (Fin 2))"
  by (simp add: calcTotalCost_def js_mul_def round64_def)

text \<open>
  C3, amended. \<open>calcTotalCost\<close> is a total function (no branch of it throws) with
  \<open>calcTotalCost(0, p) = 0\<close> and \<open>calcTotalCost(q, 0) = 0\<close> for every \<open>p\<close> and \<open>q\<close>, even non-finite
  ones; it never returns NaN; and it returns a finite number exactly when the product of its
  arguments, a non-finite one counted as zero, is below \<open>2^1024 - 2^970\<close> in magnitude, that
  is, when the multiplication does not overflow.
\<close>

theorem calcTotalCost_total:
  "calcTotalCost (Fin 0) p = Fin 0
   \<and> calcTotalCost q (Fin 0) = Fin 0
   \<and> calcTotalCost q p \<noteq> NaN
   \<and> (isFinite (calcTotalCost q p)
        \<longleftrightarrow> \<bar>finite_or_zero q * finite_or_zero p\<bar> < 2 ^ 1024 - 2 ^ 970)"
  using calcTotalCost_zero calcTotalCost_not_NaN calcTotalCost_finite_iff by blast

theorem calcTotalCost_total_witness:
  "calcTotalCost (Fin 0) PInf = Fin 0 \<and> calcTotalCost NaN (Fin 0) = Fin 0
   \<and> isFinite (calcTotalCost (Fin 10) (Fin 5))"
  using calcTotalCost_total[of PInf NaN] calcTotalCost_total[of "Fin 5" "Fin 10"]
  by simp

section \<open>Stock receipt: the schema\<close>

text \<open>
  C5. The stock-receipt schema rejects the record with quantity 0, unit price 1.5 and location
  MAIN\_WH, and among its issues is "Must be greater than 0" at \<open>quantityReceived\<close>; with the
  total cost filled in as in the inline test, that is the only issue. It rejects every record
  whose \<open>quantityReceived\<close> is 5.5 and every record whose \<open>location\<close> is the empty string,
  whatever the other fields are. It accepts quantity 2, unit price 1.5, total cost 3 at MAIN\_WH.
\<close>

theorem stockReceiveSchema_scenarios:
  assumes "get_prop v ''quantityReceived'' = JNum (Fin (11 / 2))"
    and "get_prop w ''location'' = JStr []"
  shows "\<not> success (safeParse stockReceiveSchema
            (JObj [(''quantityReceived'', JNum (Fin 0)), (''unitPrice'', JNum (Fin (3 / 2))),
                   (''location'', JStr ''MAIN_WH'')]))
    \<and> Issue [Key ''quantityReceived''] too_small (Some ''Must be greater than 0'')
        \<in> set (issues (safeParse stockReceiveSchema
            (JObj [(''quantityReceived'', JNum (Fin 0)), (''unitPrice'', JNum (Fin (3 / 2))),
                   (''location'', JStr ''MAIN_WH'')])))
    \<and> safeParse stockReceiveSchema
          (JObj [(''quantityReceived'', JNum (Fin 0)), (''unitPrice'', JNum (Fin (3 / 2))),
                 (''totalCost'', JNum (Fin 0)), (''location'', JStr ''MAIN_WH'')])
        = Failure [Issue [Key ''quantityReceived''] too_small (Some ''Must be greater than 0'')]
    \<and> \<not> success (safeParse stockReceiveSchema v)
    \<and> \<not> success (safeParse stockReceiveSchema w)
    \<and> success (safeParse stockReceiveSchema
          (JObj [(''quantityReceived'', JNum (Fin 2)), (''unitPrice'', JNum (Fin (3 / 2))),
                 (''totalCost'', JNum (Fin 3)), (''location'', JStr ''MAIN_WH'')]))"
proof -
  have q: "\<not> success (safeParse stockReceiveSchema v)"
  proof
    assume "success (safeParse stockReceiveSchema v)"
    then have "is_ok (fst (stockReceiveSchema [] v))"
      by (simp add: safeParse_success)
    then have "is_ok (fst (z_number (invalid_type_msg ''Enter a quantity'')
        [NumInt (Some ''Must be a whole number''), NumMin 0 False (Some ''Must be greater than 0'')]
        ([] @ [Key ''quantityReceived'']) (get_prop v ''quantityReceived'')))"
      unfolding stockReceiveSchema_def by (rule z_object_field_ok) simp
    with assms(1) show False
      by (simp add: z_number_def mk_return_def floor_rat_numeral_div)
  qed
  have l: "\<not> success (safeParse stockReceiveSchema w)"
  proof
    assume "success (safeParse stockReceiveSchema w)"
    then have "is_ok (fst (stockReceiveSchema [] w))"
      by (simp add: safeParse_success)
    then have "is_ok (fst (z_string no_params [StrMin 1 (Some ''Select a location'')]
        ([] @ [Key ''location'']) (get_prop w ''location'')))"
      unfolding stockReceiveSchema_def by (rule z_object_field_ok) simp
    with assms(2) show False
      by (simp add: z_string_def mk_return_def)
  qed
  show ?thesis
    using q l by (simp add: safeParse_def stockReceiveSchema_def zod_defs)
qed

theorem stockReceiveSchema_scenarios_witness:
  "\<not> success (safeParse stockReceiveSchema
      (JObj [(''quantityReceived'', JNum (Fin (11 / 2))), (''unitPrice'', JNum (Fin (3 / 2))),
             (''totalCost'', JNum (Fin (33 / 4))), (''location'', JStr ''MAIN_WH'')]))
   \<and> \<not> success (safeParse stockReceiveSchema
      (JObj [(''quantityReceived'', JNum (Fin 3)), (''unitPrice'', JNum (Fin (3 / 2))),
             (''totalCost'', JNum (Fin (9 / 2))), (''location'', JStr [])]))"
  using stockReceiveSchema_scenarios
    [of "JObj [(''quantityReceived'', JNum (Fin (11 / 2))), (''unitPrice'', JNum (Fin (3 / 2))),
               (''totalCost'', JNum (Fin (33 / 4))), (''location'', JStr ''MAIN_WH'')]"
        "JObj [(''quantityReceived'', JNum (Fin 3)), (''unitPrice'', JNum (Fin (3 / 2))),
               (''totalCost'', JNum (Fin (9 / 2))), (''location'', JStr [])]"]
  by (simp add: obj_get_def)

end
